theory Spec2Isabelle
  imports Main
begin

section \<open>The chat client of \<open>src/App.jsx\<close>\<close>

text \<open>
  The development embeds the request handler \<open>handleSendMessage\<close> of the React component
  \<open>App\<close> and the pieces it is made of: the line buffer of the streaming branch, the
  \<open>data:\<close> frame parser, the two response branches, the correlation header and the error
  message of the \<open>catch\<close> block.

  JavaScript strings are modelled as \<^typ>\<open>string\<close>: a \<^typ>\<open>char\<close> stands for one code unit,
  and the model covers the code units below 256. What the browser supplies and the
  repository does not define (\<open>JSON.parse\<close>, the arithmetic and printing of numbers, the
  wording of a \<open>TypeError\<close>, \<open>fetch\<close>) is a parameter of the model. So is what the other
  handlers of the component do while \<open>handleSendMessage\<close> is suspended at an \<open>await\<close>.
\<close>

subsection \<open>String operations used by the handler\<close>

text \<open>
  \<open>String.prototype.trim\<close> removes white space and line terminators at both ends. Of the
  code points ECMAScript lists, these are below 256: TAB, LF, VT, FF, CR, SPACE and
  NO-BREAK SPACE.
\<close>

definition is_whitespace :: "char \<Rightarrow> bool" where
  "is_whitespace c =
     (c = CHR 0x09 \<or> c = CHR 0x0A \<or> c = CHR 0x0B \<or> c = CHR 0x0C \<or> c = CHR 0x0D \<or>
      c = CHR 0x20 \<or> c = CHR 0xA0)"

definition trim :: "string \<Rightarrow> string" where
  "trim s = rev (dropWhile is_whitespace (rev (dropWhile is_whitespace s)))"

definition startsWith :: "string \<Rightarrow> string \<Rightarrow> bool" where
  "startsWith s p = (take (length p) s = p)"

text \<open>\<open>s.substring(n)\<close> with one argument: the code units from index \<open>n\<close> on.\<close>

definition substring :: "string \<Rightarrow> nat \<Rightarrow> string" where
  "substring s n = drop n s"

fun includes_str :: "string \<Rightarrow> string \<Rightarrow> bool" where
  "includes_str [] p = (p = [])"
| "includes_str (c # cs) p = (startsWith (c # cs) p \<or> includes_str cs p)"

text \<open>
  \<open>s.split('\n')\<close>: the pieces between the newlines, in order. The result is never empty:
  the empty string gives one empty piece, and a string that ends in a newline gives an
  empty last piece. So the second branch of the \<open>case\<close> below is never taken.
\<close>

fun split_newline :: "string \<Rightarrow> string list" where
  "split_newline [] = [[]]"
| "split_newline (c # cs) =
     (if c = CHR 0x0A then [] # split_newline cs
      else (case split_newline cs of
              l # ls \<Rightarrow> (c # l) # ls
            | [] \<Rightarrow> [[c]]))"

text \<open>The decimal digits of a number, as a template literal prints \<open>response.status\<close>.\<close>

fun decimal :: "nat \<Rightarrow> string" where
  "decimal n =
     (if n < 10 then [char_of (48 + n)]
      else decimal (n div 10) @ [char_of (48 + n mod 10)])"

declare decimal.simps [simp del]

text \<open>\<open>xs.join(sep)\<close> on a list of strings.\<close>

fun join :: "string \<Rightarrow> string list \<Rightarrow> string" where
  "join sep [] = []"
| "join sep [x] = x"
| "join sep (x # y # ys) = x @ sep @ join sep (y # ys)"

subsection \<open>Decoded JSON values and the platform\<close>

text \<open>
  A value as \<open>JSON.parse\<close> delivers it. Numbers are IEEE doubles in JavaScript; the model
  leaves their type \<open>'n\<close> open. An object is the list of its own properties, each key
  once.
\<close>

datatype 'n json =
    JNull
  | JBool bool
  | JNumber 'n
  | JString string
  | JArray "'n json list"
  | JObject "(string \<times> 'n json) list"

text \<open>
  The platform: \<open>JSON_parse\<close> returns \<open>Inl m\<close> when \<open>JSON.parse\<close> throws a \<open>SyntaxError\<close> with
  message \<open>m\<close>; \<open>Number_truthy\<close> is \<open>ToBoolean\<close> on a number and \<open>Number_toString\<close> its
  \<open>ToString\<close>; \<open>numeric_plus\<close> is \<open>+\<close> on two operands neither of which becomes a string;
  \<open>TypeError_message p\<close> is the message of the \<open>TypeError\<close> thrown on reading property \<open>p\<close> of
  \<open>null\<close>.
\<close>

record 'n platform =
  JSON_parse :: "string \<Rightarrow> string + 'n json"
  Number_truthy :: "'n \<Rightarrow> bool"
  Number_toString :: "'n \<Rightarrow> string"
  numeric_plus :: "'n json \<Rightarrow> 'n json \<Rightarrow> 'n json"
  TypeError_message :: "string \<Rightarrow> string"

text \<open>\<open>ToBoolean\<close>, as the conditions \<open>if (data.text)\<close> and \<open>if (errorJson.message)\<close> apply it.\<close>

fun truthy :: "'n platform \<Rightarrow> 'n json \<Rightarrow> bool" where
  "truthy env JNull = False"
| "truthy env (JBool b) = b"
| "truthy env (JNumber n) = Number_truthy env n"
| "truthy env (JString s) = (s \<noteq> [])"
| "truthy env (JArray xs) = True"
| "truthy env (JObject kvs) = True"

text \<open>
  Reading the property \<open>text\<close> or \<open>message\<close> of a decoded value: \<open>null\<close> throws, an object
  gives its own property or \<open>undefined\<close> (\<open>None\<close>), every other value gives \<open>undefined\<close>.
\<close>

fun get_property :: "'n platform \<Rightarrow> 'n json \<Rightarrow> string \<Rightarrow> string + 'n json option" where
  "get_property env JNull p = Inl (TypeError_message env p)"
| "get_property env (JObject kvs) p = Inr (map_of kvs p)"
| "get_property env (JBool b) p = Inr None"
| "get_property env (JNumber n) p = Inr None"
| "get_property env (JString s) p = Inr None"
| "get_property env (JArray xs) p = Inr None"

text \<open>
  \<open>ToString\<close>, as string concatenation and template literals apply it; \<open>None\<close> when it
  throws a \<open>TypeError\<close>. A decoded object prints through \<open>Object.prototype.toString\<close>, as
  \<open>[object Object]\<close>, unless it has an own property \<open>toString\<close>: that property is a JSON
  value, which is not callable, \<open>valueOf\<close> does not give a primitive either, and the
  conversion throws. An array joins its elements with commas, \<open>null\<close> elements printing as
  nothing, and throws when the conversion of an element throws.
\<close>

fun toString :: "'n platform \<Rightarrow> 'n json \<Rightarrow> string option" where
  "toString env JNull = Some ''null''"
| "toString env (JBool b) = Some (if b then ''true'' else ''false'')"
| "toString env (JNumber n) = Some (Number_toString env n)"
| "toString env (JString s) = Some s"
| "toString env (JArray xs) =
     (let parts = map (\<lambda>x. if x = JNull then Some [] else toString env x) xs
      in if list_all (\<lambda>p. p \<noteq> None) parts then Some (join '','' (map the parts)) else None)"
| "toString env (JObject kvs) =
     (if map_of kvs ''toString'' = None then Some ''[object Object]'' else None)"

text \<open>
  The operator \<open>+\<close>: when either operand is a string, or an array or object (which turn
  into strings or throw), the result is the concatenation of the two \<open>ToString\<close>s, and
  \<open>None\<close> when one of them throws.
\<close>

fun becomes_string :: "'n json \<Rightarrow> bool" where
  "becomes_string (JString s) = True"
| "becomes_string (JArray xs) = True"
| "becomes_string (JObject kvs) = True"
| "becomes_string JNull = False"
| "becomes_string (JBool b) = False"
| "becomes_string (JNumber n) = False"

definition js_plus :: "'n platform \<Rightarrow> 'n json \<Rightarrow> 'n json \<Rightarrow> 'n json option" where
  "js_plus env a b =
     (if becomes_string a \<or> becomes_string b
      then (case toString env a of
              None \<Rightarrow> None
            | Some x \<Rightarrow>
                (case toString env b of
                   None \<Rightarrow> None
                 | Some y \<Rightarrow> Some (JString (x @ y))))
      else Some (numeric_plus env a b))"

subsection \<open>Conversation state\<close>

datatype sender = User | Bot

text \<open>
  A message object. \<open>sender\<close> is \<open>None\<close> when the object has no such property; \<open>isError\<close> is
  \<open>False\<close> when the property is absent. \<open>text'\<close> is the property \<open>text\<close>: whatever value
  was stored there.
\<close>

record 'n message =
  sender :: "sender option"
  text' :: "'n json"
  isError :: bool

text \<open>The component's state: one field for each \<open>useState\<close>.\<close>

record 'n state =
  n8nWebhookUrl :: string
  chatId :: "string option"
  messages :: "'n message list"
  input :: string
  isLoading :: bool
  error :: string

definition initial_state :: "'n state" where
  "initial_state =
     \<lparr> n8nWebhookUrl = [], chatId = None,
       messages = [\<lparr> sender = Some Bot,
         text' = JString ''Hello! Please enter your n8n Chat Trigger Webhook URL above to begin.'',
         isError = False \<rparr>],
       input = [], isLoading = False, error = [] \<rparr>"

definition handleNewChat :: "'n state \<Rightarrow> 'n state" where
  "handleNewChat s =
     s \<lparr> chatId := None,
         messages := [\<lparr> sender = Some Bot,
           text' = JString ''New chat started. Your conversation history has been cleared.'',
           isError = False \<rparr>],
         error := [],
         isLoading := False \<rparr>"

subsection \<open>The updates of the message log\<close>

text \<open>
  The three updater functions handed to \<open>setMessages\<close> while a response is handled. Each
  reads \<open>prev[prev.length - 1]\<close>, which is \<open>undefined\<close> on an empty log, and returns
  \<open>[...prev.slice(0, -1), updatedLastMessage]\<close>.
\<close>

definition lastMessage :: "'n message list \<Rightarrow> 'n message option" where
  "lastMessage prev = (if prev = [] then None else Some (last prev))"

text \<open>
  \<open>{ ...lastMessage, text: v }\<close>: spreading \<open>undefined\<close> copies nothing, so the new object has
  the property \<open>text\<close> only.
\<close>

definition with_text :: "'n message option \<Rightarrow> 'n json \<Rightarrow> 'n message" where
  "with_text m v =
     (case m of
        None \<Rightarrow> \<lparr> sender = None, text' = v, isError = False \<rparr>
      | Some l \<Rightarrow> l \<lparr> text' := v \<rparr>)"

text \<open>The single-object branch: \<open>{ ...lastMessage, text: data.text }\<close>.\<close>

definition set_last_text :: "'n json \<Rightarrow> 'n message list \<Rightarrow> 'n message list" where
  "set_last_text v prev = butlast prev @ [with_text (lastMessage prev) v]"

text \<open>
  The streaming branch: \<open>{ ...lastMessage, text: lastMessage.text + data.text }\<close>. On an
  empty log the updater throws on \<open>lastMessage.text\<close>, and it throws when the \<open>+\<close> throws.
  What an updater throws does not reach the \<open>try\<close> blocks of the handler: React holds it
  back at the call of \<open>setMessages\<close> and throws it when it renders. The log stays as it
  is.
\<close>

definition append_last_text ::
  "'n platform \<Rightarrow> 'n json \<Rightarrow> 'n message list \<Rightarrow> 'n message list" where
  "append_last_text env v prev =
     (case lastMessage prev of
        None \<Rightarrow> prev
      | Some l \<Rightarrow>
          (case js_plus env (text' l) v of
             None \<Rightarrow> prev
           | Some w \<Rightarrow> butlast prev @ [with_text (Some l) w]))"

text \<open>The \<open>catch\<close> block: \<open>{ ...lastMessage, text: userFriendlyError, isError: true }\<close>.\<close>

definition seal_last :: "string \<Rightarrow> 'n message list \<Rightarrow> 'n message list" where
  "seal_last e prev =
     butlast prev @ [(with_text (lastMessage prev) (JString e)) \<lparr> isError := True \<rparr>]"

subsection \<open>The streaming branch\<close>

text \<open>
  The body of \<open>for (const line of lines)\<close>. A line counts when, trimmed, it starts with
  \<open>data:\<close> and something follows the prefix. A payload that \<open>JSON.parse\<close> rejects, and a
  payload that decodes to \<open>null\<close>, throw inside the inner \<open>try\<close>: the line is logged and
  skipped.
\<close>

definition process_line ::
  "'n platform \<Rightarrow> string \<Rightarrow> 'n message list \<Rightarrow> 'n message list" where
  "process_line env line msgs =
     (if startsWith (trim line) ''data:'' then
        (let jsonString = substring (trim line) 5 in
         if jsonString \<noteq> [] then
           (case JSON_parse env jsonString of
              Inl e \<Rightarrow> msgs
            | Inr data \<Rightarrow>
                (case get_property env data ''text'' of
                   Inl e \<Rightarrow> msgs
                 | Inr None \<Rightarrow> msgs
                 | Inr (Some t) \<Rightarrow>
                     if truthy env t then append_last_text env t msgs else msgs))
         else msgs)
      else msgs)"

text \<open>
  The line buffer, the first three statements of the loop body:
  \<open>buffer += chunk; lines = buffer.split('\n'); buffer = lines.pop()\<close>. It returns the
  complete lines and the new buffer.
\<close>

definition push :: "string \<Rightarrow> string \<Rightarrow> string list \<times> string" where
  "push buffer chunk =
     (let lines = split_newline (buffer @ chunk) in (butlast lines, last lines))"

text \<open>
  The \<open>while (true)\<close> loop over \<open>reader.read()\<close>, on the chunks the reader delivers before
  it reports \<open>done\<close>, as it acts on the message log when no other handler touches the log
  between two reads. A chunk is the text \<open>decoder.decode(value, { stream: true })\<close> returns
  for it. Each round pushes the chunk into the line buffer and handles the complete
  lines in order.
\<close>

fun read_loop ::
  "'n platform \<Rightarrow> string \<Rightarrow> string list \<Rightarrow> 'n message list \<Rightarrow> 'n message list" where
  "read_loop env buffer [] msgs = msgs"
| "read_loop env buffer (chunk # rest) msgs =
     (case push buffer chunk of
        (lines, buffer') \<Rightarrow> read_loop env buffer' rest (fold (process_line env) lines msgs))"

subsection \<open>Requests and responses\<close>

text \<open>
  The argument of \<open>fetch\<close>. \<open>request_body\<close> is the value handed to \<open>JSON.stringify\<close>.
\<close>

record 'n request =
  url :: string
  http_method :: string
  request_headers :: "(string \<times> string) list"
  request_body :: "'n json"

text \<open>
  A response body is the list of text chunks its reader delivers and how the reading
  ends: \<open>failure = None\<close> when the reader reports \<open>done\<close>, \<open>Some m\<close> when a read rejects with
  an error of message \<open>m\<close>. A chunk stands for the text the streaming decoder returns
  for it; the decoder keeps an incomplete multi-byte sequence for the next chunk, so
  the texts of the chunks make up the decoded text of the bytes however the bytes are
  cut. The model covers bodies that end: with an endpoint that never closes the stream
  the loop keeps waiting and the handler does not return.
\<close>

record stream =
  chunks :: "string list"
  failure :: "string option"

text \<open>
  A response: \<open>headers\<close> is \<open>response.headers.get\<close>, looked up by the names the handler
  passes; \<open>body\<close> is \<open>None\<close> for a response without a body (\<open>response.body\<close> is \<open>null\<close>).
\<close>

record response =
  status :: nat
  headers :: "string \<Rightarrow> string option"
  body :: "stream option"

text \<open>\<open>response.ok\<close>: the status is in the range 200 to 299.\<close>

definition ok :: "response \<Rightarrow> bool" where
  "ok r = (200 \<le> status r \<and> status r \<le> 299)"

text \<open>
  \<open>await response.text()\<close> reads the whole body: \<open>Inl m\<close> when a read fails, the text of
  all chunks otherwise. \<open>await response.json()\<close> decodes that text.
\<close>

definition response_text :: "response \<Rightarrow> string + string" where
  "response_text r =
     (case body r of
        None \<Rightarrow> Inr []
      | Some b \<Rightarrow>
          (case failure b of
             Some m \<Rightarrow> Inl m
           | None \<Rightarrow> Inr (concat (chunks b))))"

definition response_json :: "'n platform \<Rightarrow> response \<Rightarrow> string + 'n json" where
  "response_json env r =
     (case response_text r of
        Inl m \<Rightarrow> Inl m
      | Inr t \<Rightarrow> JSON_parse env t)"

text \<open>A value that is \<open>null\<close> or a string is truthy when it is a non-empty string.\<close>

definition present :: "string option \<Rightarrow> bool" where
  "present v = (case v of None \<Rightarrow> False | Some x \<Rightarrow> x \<noteq> [])"

subsection \<open>The error message of the \<open>catch\<close> block\<close>

text \<open>
  \<open>err.message.match(/{.*}/)\<close>. The dot does not match a line terminator (LF and CR among
  the code units below 256). At an opening brace the match runs to the last closing
  brace before the end of the line; when the line has none, the search goes on at the
  next character.
\<close>

definition is_line_terminator :: "char \<Rightarrow> bool" where
  "is_line_terminator c = (c = CHR 0x0A \<or> c = CHR 0x0D)"

definition greedy_to_brace :: "string \<Rightarrow> string option" where
  "greedy_to_brace cs =
     (let seg = takeWhile (\<lambda>c. \<not> is_line_terminator c) cs;
          m = rev (dropWhile (\<lambda>c. c \<noteq> CHR ''}'') (rev seg))
      in if m = [] then None else Some m)"

fun match_braces :: "string \<Rightarrow> string option" where
  "match_braces [] = None"
| "match_braces (c # cs) =
     (if c = CHR ''{'' then
        (case greedy_to_brace cs of
           Some m \<Rightarrow> Some (c # m)
         | None \<Rightarrow> match_braces cs)
      else match_braces cs)"

definition generic_error :: "string \<Rightarrow> string" where
  "generic_error m =
     ''Error: '' @ m @ ''. Please check the webhook URL and your n8n workflow.''"

definition checklist :: string where
  "checklist =
     ''\<newline>\<newline>Common issues to check:\<newline>1. Is the workflow active?\<newline>2. Is the API key in your Google Gemini node valid?\<newline>3. Is the model name correct?\<newline>4. Check the workflow execution logs in n8n for more details.''"

definition workflow_error :: "string \<Rightarrow> string" where
  \<open>workflow_error v = ''An error occurred in your n8n workflow: "'' @ v @ ''"'' @ checklist\<close>

text \<open>
  The value of \<open>userFriendlyError\<close> for an error of message \<open>m\<close>. Whatever throws inside the
  inner \<open>try\<close> is caught and logged, and the generic message stays: \<open>JSON.parse\<close> on the
  matched region, and the template literal when the conversion of \<open>errorJson.message\<close> to
  a string throws.
\<close>

definition userFriendlyError :: "'n platform \<Rightarrow> string \<Rightarrow> string" where
  "userFriendlyError env m =
     (case match_braces m of
        None \<Rightarrow> generic_error m
      | Some j \<Rightarrow>
          (case JSON_parse env j of
             Inl e \<Rightarrow> generic_error m
           | Inr errorJson \<Rightarrow>
               (case get_property env errorJson ''message'' of
                  Inl e \<Rightarrow> generic_error m
                | Inr None \<Rightarrow> generic_error m
                | Inr (Some v) \<Rightarrow>
                    if truthy env v then
                      (case toString env v of
                         None \<Rightarrow> generic_error m
                       | Some t \<Rightarrow> workflow_error t)
                    else generic_error m)))"

definition catch_block :: "'n platform \<Rightarrow> string \<Rightarrow> 'n state \<Rightarrow> 'n state" where
  "catch_block env m s =
     (let e = userFriendlyError env m in
      s \<lparr> error := e, messages := seal_last e (messages s) \<rparr>)"

subsection \<open>The handler\<close>

text \<open>
  The handler is asynchronous: at every \<open>await\<close> it is suspended, and other handlers of
  the component may run before it resumes (New Chat, whose button is never disabled,
  typing, and after New Chat another send). \<open>others k\<close> is what they do to the state
  during the \<open>k\<close>-th wait of this call: wait 0 is \<open>await fetch(...)\<close>, wait 1 is
  \<open>await response.text()\<close>, \<open>await response.json()\<close> or the first
  \<open>await reader.read()\<close>, and every further read is one more wait. The handler itself
  keeps the values it closed over when it was called (\<open>input\<close>, \<open>chatId\<close>), and its
  updates act on the state it finds when it resumes.
\<close>

type_synonym 'n others = "nat \<Rightarrow> 'n state \<Rightarrow> 'n state"

text \<open>Nothing else runs while the handler waits.\<close>

definition undisturbed :: "'n others" where
  "undisturbed k s = s"

text \<open>
  The \<open>while (true)\<close> loop with its waits. The read of wait \<open>k\<close> delivers the next chunk;
  after the last chunk one more read reports \<open>done\<close> or rejects.
\<close>

fun read_loop_among ::
  "'n platform \<Rightarrow> 'n others \<Rightarrow> nat \<Rightarrow> string \<Rightarrow> string list \<Rightarrow> 'n state \<Rightarrow> 'n state" where
  "read_loop_among env others k buffer [] s = others k s"
| "read_loop_among env others k buffer (chunk # rest) s =
     (case push buffer chunk of
        (lines, buffer') \<Rightarrow>
          read_loop_among env others (Suc k) buffer' rest
            ((others k s) \<lparr> messages := fold (process_line env) lines (messages (others k s)) \<rparr>))"

text \<open>
  The two branches after the status check. Each returns the state and, when it throws,
  the message of the error thrown.
\<close>

definition json_branch ::
  "'n platform \<Rightarrow> 'n others \<Rightarrow> response \<Rightarrow> 'n state \<Rightarrow> 'n state \<times> string option" where
  "json_branch env others r s =
     (let s' = others 1 s in
      case response_json env r of
        Inl m \<Rightarrow> (s', Some m)
      | Inr data \<Rightarrow>
          (case get_property env data ''text'' of
             Inl m \<Rightarrow> (s', Some m)
           | Inr None \<Rightarrow> (s', None)
           | Inr (Some t) \<Rightarrow>
               if truthy env t
               then (s' \<lparr> messages := set_last_text t (messages s') \<rparr>, None)
               else (s', None)))"

definition stream_branch ::
  "'n platform \<Rightarrow> 'n others \<Rightarrow> response \<Rightarrow> 'n state \<Rightarrow> 'n state \<times> string option" where
  "stream_branch env others r s =
     (case body r of
        None \<Rightarrow> (s, Some (TypeError_message env ''getReader''))
      | Some b \<Rightarrow> (read_loop_among env others 1 [] (chunks b) s, failure b))"

text \<open>The condition \<open>contentType && contentType.includes("application/json")\<close>.\<close>

definition is_json :: "string option \<Rightarrow> bool" where
  "is_json contentType =
     (case contentType of
        None \<Rightarrow> False
      | Some c \<Rightarrow> c \<noteq> [] \<and> includes_str c ''application/json'')"

text \<open>
  The \<open>try\<close> block from the status check on, in the state \<open>s\<close> the handler finds when
  \<open>fetch\<close> has answered. \<open>held\<close> is the \<open>chatId\<close> the handler closed over when it was
  called, which line 84 tests; it need not be the \<open>chatId\<close> of \<open>s\<close>.
\<close>

definition on_response ::
  "'n platform \<Rightarrow> 'n others \<Rightarrow> string option \<Rightarrow> response \<Rightarrow> 'n state \<Rightarrow>
     'n state \<times> string option" where
  "on_response env others held r s =
     (if \<not> ok r then
        (let s' = others 1 s in
         case response_text r of
           Inl m \<Rightarrow> (s', Some m)
         | Inr errorText \<Rightarrow>
             (s', Some (''Network response was not ok: '' @ decimal (status r) @ '' '' @ errorText)))
      else
        (let newChatId = headers r ''X-N8N-CHAT-ID'';
             s1 = (if present newChatId \<and> \<not> present held
                   then s \<lparr> chatId := newChatId \<rparr> else s)
         in if is_json (headers r ''content-type'')
            then json_branch env others r s1
            else stream_branch env others r s1))"

definition make_request :: "'n state \<Rightarrow> 'n request" where
  "make_request s =
     \<lparr> url = n8nWebhookUrl s,
       http_method = ''POST'',
       request_headers =
         (''Content-Type'', ''application/json'') #
         (case chatId s of
            None \<Rightarrow> []
          | Some c \<Rightarrow> if c \<noteq> [] then [(''X-N8N-CHAT-ID'', c)] else []),
       request_body = JObject [(''message'', JString (input s))] \<rparr>"

text \<open>
  The two messages a send appends before the request: \<open>{ sender: 'user', text: input }\<close>
  and the placeholder \<open>{ sender: 'bot', text: '' }\<close>.
\<close>

definition userMessage :: "'n state \<Rightarrow> 'n message" where
  "userMessage s = \<lparr> sender = Some User, text' = JString (input s), isError = False \<rparr>"

definition placeholder :: "'n message" where
  "placeholder = \<lparr> sender = Some Bot, text' = JString [], isError = False \<rparr>"

text \<open>
  The state when the \<open>try\<close> block is entered: the banner cleared, the user's message
  appended, the input emptied, the loading flag set, the placeholder appended.
\<close>

definition pending_state :: "'n state \<Rightarrow> 'n state" where
  "pending_state s =
     (let s1 = s \<lparr> error := [], messages := messages s @ [userMessage s],
                   input := [], isLoading := True \<rparr>
      in s1 \<lparr> messages := messages s1 @ [placeholder] \<rparr>)"

text \<open>
  The \<open>try\<close> block, given the network: \<open>fetch\<close> answers a request with \<open>Inl m\<close> (the promise
  rejects with an error of message \<open>m\<close>) or with a response. The request is built and sent
  before the first wait. The block returns the state and, when it throws, the message of
  the error.
\<close>

definition try_block ::
  "'n platform \<Rightarrow> 'n others \<Rightarrow> ('n request \<Rightarrow> string + response) \<Rightarrow> 'n state \<Rightarrow>
     'n state \<times> string option" where
  "try_block env others fetch s =
     (let s' = others 0 (pending_state s) in
      case fetch (make_request s) of
        Inl m \<Rightarrow> (s', Some m)
      | Inr r \<Rightarrow> on_response env others (chatId s) r s')"

text \<open>The state when the \<open>finally\<close> block is entered: after the \<open>try\<close> block, or after the \<open>catch\<close> block when the \<open>try\<close> block threw.\<close>

definition try_catch ::
  "'n platform \<Rightarrow> 'n others \<Rightarrow> ('n request \<Rightarrow> string + response) \<Rightarrow> 'n state \<Rightarrow> 'n state" where
  "try_catch env others fetch s =
     (case try_block env others fetch s of
        (s3, thrown) \<Rightarrow>
          (case thrown of None \<Rightarrow> s3 | Some m \<Rightarrow> catch_block env m s3))"

text \<open>
  \<open>handleSendMessage\<close> called in state \<open>s\<close>, among the other handlers. The result is the
  state when the handler returns and the requests it sent. The \<open>finally\<close> block clears the
  loading flag.
\<close>

definition handleSendMessage_among ::
  "'n platform \<Rightarrow> 'n others \<Rightarrow> ('n request \<Rightarrow> string + response) \<Rightarrow> 'n state \<Rightarrow>
     'n state \<times> 'n request list" where
  "handleSendMessage_among env others fetch s =
     (if trim (input s) = [] \<or> isLoading s then (s, [])
      else if trim (n8nWebhookUrl s) = [] \<or> \<not> startsWith (n8nWebhookUrl s) ''http''
      then (s \<lparr> error := ''Please enter a valid n8n Webhook URL to start chatting.'' \<rparr>, [])
      else ((try_catch env others fetch s) \<lparr> isLoading := False \<rparr>, [make_request s]))"

text \<open>
  \<open>handleSendMessage\<close> when nothing else runs while it waits: one send from the call to the
  return.
\<close>

definition handleSendMessage ::
  "'n platform \<Rightarrow> ('n request \<Rightarrow> string + response) \<Rightarrow> 'n state \<Rightarrow>
     'n state \<times> 'n request list" where
  "handleSendMessage env fetch s = handleSendMessage_among env undisturbed fetch s"

subsection \<open>Vocabulary of the properties\<close>

text \<open>
  The line buffer run over a list of chunks: all complete lines it emits, in order, and
  the buffer it is left with.
\<close>

fun feed :: "string \<Rightarrow> string list \<Rightarrow> string list \<times> string" where
  "feed buffer [] = ([], buffer)"
| "feed buffer (chunk # rest) =
     (case push buffer chunk of
        (lines, buffer') \<Rightarrow>
          (case feed buffer' rest of (later, final) \<Rightarrow> (lines @ later, final)))"

text \<open>
  A line is a frame carrying the text fragment \<open>t\<close> when it is a \<open>data:\<close> line whose payload
  decodes to an object with the string \<open>t\<close> under \<open>text\<close>.
\<close>

definition frame_text :: "'n platform \<Rightarrow> string \<Rightarrow> string option" where
  "frame_text env line =
     (if startsWith (trim line) ''data:'' \<and> substring (trim line) 5 \<noteq> [] then
        (case JSON_parse env (substring (trim line) 5) of
           Inr (JObject kvs) \<Rightarrow>
             (case map_of kvs ''text'' of Some (JString t) \<Rightarrow> Some t | _ \<Rightarrow> None)
         | _ \<Rightarrow> None)
      else None)"

text \<open>A malformed frame: a \<open>data:\<close> line whose payload \<open>JSON.parse\<close> rejects.\<close>

definition malformed_frame :: "'n platform \<Rightarrow> string \<Rightarrow> bool" where
  "malformed_frame env line =
     (startsWith (trim line) ''data:'' \<and> isl (JSON_parse env (substring (trim line) 5)))"

text \<open>
  A send is dispatched when it passes the two guards at the top of the handler: the
  input is not blank, no request is pending, and the URL starts with \<open>http\<close>.
\<close>

definition dispatched :: "'n state \<Rightarrow> bool" where
  "dispatched s =
     (trim (input s) \<noteq> [] \<and> \<not> isLoading s \<and>
      trim (n8nWebhookUrl s) \<noteq> [] \<and> startsWith (n8nWebhookUrl s) ''http'')"

subsection \<open>A concrete platform and concrete responses\<close>

text \<open>
  For running the handler on concrete inputs: a platform over the natural numbers whose
  decoder knows the texts of a table and rejects every other text.
\<close>

fun to_number :: "nat json \<Rightarrow> nat" where
  "to_number (JNumber n) = n"
| "to_number (JBool b) = (if b then 1 else 0)"
| "to_number v = 0"

definition table_platform :: "(string \<times> nat json) list \<Rightarrow> nat platform" where
  "table_platform tab =
     \<lparr> JSON_parse = (\<lambda>t. case map_of tab t of
                            Some v \<Rightarrow> Inr v
                          | None \<Rightarrow> Inl ''Unexpected token''),
       Number_truthy = (\<lambda>n. n \<noteq> 0),
       Number_toString = decimal,
       numeric_plus = (\<lambda>a b. JNumber (to_number a + to_number b)),
       TypeError_message = (\<lambda>p. ''Cannot read properties of null (reading '' @ p @ '')'') \<rparr>"

definition text_object :: "string \<Rightarrow> nat json" where
  "text_object t = JObject [(''text'', JString t)]"

definition message_object :: "string \<Rightarrow> nat json" where
  "message_object t = JObject [(''message'', JString t)]"

definition ready_state :: "nat state" where
  "ready_state =
     initial_state \<lparr> n8nWebhookUrl := ''http://localhost:5678/webhook/chat'', input := ''Hi'' \<rparr>"

text \<open>
  A network that answers every request with the response \<open>r\<close>, and one that rejects every
  request with an error of message \<open>m\<close>.
\<close>

definition answering :: "response \<Rightarrow> 'n request \<Rightarrow> string + response" where
  "answering r q = Inr r"

definition rejecting :: "string \<Rightarrow> 'n request \<Rightarrow> string + response" where
  "rejecting m q = Inl m"

text \<open>An answer with the given status and headers whose body arrives whole, in the given chunks.\<close>

definition reply :: "nat \<Rightarrow> (string \<Rightarrow> string option) \<Rightarrow> string list \<Rightarrow> response" where
  "reply st hs cs = \<lparr> status = st, headers = hs, body = Some \<lparr> chunks = cs, failure = None \<rparr> \<rparr>"

definition event_stream :: "string list \<Rightarrow> response" where
  "event_stream cs = reply 200 [''content-type'' \<mapsto> ''text/event-stream''] cs"

text \<open>An event stream that breaks off after its first frame.\<close>

definition interrupted_response :: response where
  \<open>interrupted_response =
     \<lparr> status = 200,
       headers = [''content-type'' \<mapsto> ''text/event-stream''],
       body = Some \<lparr> chunks = [''data: {"text":"He"}\<newline>''], failure = Some ''network error'' \<rparr> \<rparr>\<close>

definition scenario_platform :: "nat platform" where
  \<open>scenario_platform = table_platform
     [('' {"text":"He"}'', text_object ''He''),
      ('' {"text":"llo"}'', text_object ''llo''),
      (''{"text":"Hi there"}'', text_object ''Hi there''),
      (''{"message":"Invalid API key"}'', message_object ''Invalid API key''),
      (''{"message":""}'', message_object []),
      (''{"message":{"toString":1}}'',
         JObject [(''message'', JObject [(''toString'', JNumber 1)])])]\<close>

definition hello_response :: response where
  \<open>hello_response = event_stream [''data: {"text":"He"}\<newline>data: {"te'', ''xt":"llo"}\<newline>'']\<close>

definition broken_response :: response where
  \<open>broken_response =
     event_stream [''data: {"text":"He"}\<newline>data: {"text":'', ''\<newline>data: {"text":"llo"}\<newline>'']\<close>

definition failing_response :: response where
  \<open>failing_response = reply 500 [''X-N8N-CHAT-ID'' \<mapsto> ''A''] [''upstream {not json}'']\<close>

definition accepted_response :: "string \<Rightarrow> response" where
  \<open>accepted_response c = reply 200 [''X-N8N-CHAT-ID'' \<mapsto> c] []\<close>

definition json_response :: "string list \<Rightarrow> response" where
  "json_response cs = reply 200 [''content-type'' \<mapsto> ''application/json; charset=utf-8''] cs"

definition untyped_response :: "string list \<Rightarrow> response" where
  "untyped_response cs = reply 200 Map.empty cs"

definition workflow_failure :: response where
  \<open>workflow_failure = reply 500 Map.empty [''Workflow error: {"message":"Invalid API key"}'']\<close>

definition empty_message_failure :: response where
  \<open>empty_message_failure = reply 500 Map.empty [''Workflow error: {"message":""}'']\<close>

definition unprintable_failure :: response where
  \<open>unprintable_failure = reply 500 Map.empty [''Workflow error: {"message":{"toString":1}}'']\<close>

text \<open>
  While a first send waits for \<open>fetch\<close>: New Chat, a new input, and a second send that is
  answered, with the id \<open>B\<close>, and returns.
\<close>

definition overlapping :: "nat others" where
  "overlapping k t =
     (if k = 0
      then fst (handleSendMessage scenario_platform (answering (accepted_response ''B''))
                  ((handleNewChat t) \<lparr> input := ''again'' \<rparr>))
      else t)"

section \<open>Properties\<close>

subsection \<open>The line buffer\<close>

lemma split_newline_nonempty: "split_newline s \<noteq> []"
  by (induction s) (auto split: list.splits)

lemma split_newline_no_newline: "CHR 0x0A \<notin> set s \<Longrightarrow> split_newline s = [s]"
  by (induction s) auto

lemma last_split_newline_no_newline: "CHR 0x0A \<notin> set (last (split_newline s))"
proof (induction s)
  case Nil
  show ?case by simp
next
  case (Cons c cs)
  then show ?case
    using split_newline_nonempty [of cs]
    by (cases "split_newline cs") (auto split: if_splits)
qed

text \<open>
  Splitting a text that continues: the pieces of the first part but the last, then the
  pieces of the last piece continued.
\<close>

lemma split_newline_append:
  "split_newline (a @ b) =
     butlast (split_newline a) @ split_newline (last (split_newline a) @ b)"
proof (induction a)
  case Nil
  show ?case by simp
next
  case (Cons c cs)
  obtain l ls where sp: "split_newline cs = l # ls"
    using split_newline_nonempty [of cs] by (cases "split_newline cs") auto
  show ?case
  proof (cases "c = CHR 0x0A")
    case True
    with Cons sp show ?thesis by simp
  next
    case False
    show ?thesis
    proof (cases ls)
      case Nil
      with False Cons sp show ?thesis by simp
    next
      case (Cons x xs)
      with False Cons.IH sp show ?thesis by simp
    qed
  qed
qed

text \<open>
  What the line buffer has emitted and what it holds depend on the text received only:
  the lines are the pieces of the whole text but the last, the buffer is the last piece.
\<close>

lemma feed_eq:
  "CHR 0x0A \<notin> set b \<Longrightarrow>
   feed b cs =
     (butlast (split_newline (b @ concat cs)), last (split_newline (b @ concat cs)))"
proof (induction cs arbitrary: b)
  case Nil
  then show ?case by (simp add: split_newline_no_newline)
next
  case (Cons c cs)
  have "split_newline (b @ c @ concat cs) =
        butlast (split_newline (b @ c)) @
        split_newline (last (split_newline (b @ c)) @ concat cs)"
    using split_newline_append [of "b @ c" "concat cs"] by simp
  then show ?case
    using Cons.IH [OF last_split_newline_no_newline [of "b @ c"]]
    by (simp add: push_def Let_def butlast_append split_newline_nonempty)
qed

lemma join_split_newline: "join [CHR 0x0A] (split_newline s) = s"
proof (induction s)
  case Nil
  show ?case by simp
next
  case (Cons c cs)
  obtain l ls where sp: "split_newline cs = l # ls"
    using split_newline_nonempty [of cs] by (cases "split_newline cs") auto
  with Cons show ?case by (cases ls) auto
qed

text \<open>
  C2. Two chunk lists that carry the same text make the line buffer emit the same lines
  in the same order and leave it with the same buffer. Nothing is lost: the lines and
  the buffer, joined by newlines again, are the text received.
\<close>

theorem line_buffer_chunk_invariance:
  assumes "concat cs = concat cs'"
  shows "feed [] cs = feed [] cs' \<and>
         join [CHR 0x0A] (fst (feed [] cs) @ [snd (feed [] cs)]) = concat cs"
  using assms by (simp add: feed_eq split_newline_nonempty join_split_newline)

theorem line_buffer_chunk_invariance_witness:
  "concat [''ab\<newline>c'', ''d\<newline>e''] = concat [''a'', ''b'', ''\<newline>cd'', ''\<newline>'', ''e''] \<and>
   feed [] [''ab\<newline>c'', ''d\<newline>e''] = ([''ab'', ''cd''], ''e'') \<and>
   feed [] [''a'', ''b'', ''\<newline>cd'', ''\<newline>'', ''e''] = ([''ab'', ''cd''], ''e'') \<and>
   join [CHR 0x0A] [''ab'', ''cd'', ''e''] = ''ab\<newline>cd\<newline>e''"
  using line_buffer_chunk_invariance
    [of "[''ab\<newline>c'', ''d\<newline>e'']" "[''a'', ''b'', ''\<newline>cd'', ''\<newline>'', ''e'']"]
  by (simp add: push_def)

subsection \<open>The streaming branch\<close>

text \<open>The read loop handles the lines the line buffer emits, in order.\<close>

lemma read_loop_feed:
  "read_loop env b cs msgs = fold (process_line env) (fst (feed b cs)) msgs"
  by (induction cs arbitrary: b msgs) (auto split: prod.splits)

text \<open>The pieces of a text made of newline-terminated lines are these lines and an empty rest.\<close>

lemma split_newline_terminated:
  "\<forall>l\<in>set ls. CHR 0x0A \<notin> set l \<Longrightarrow>
   split_newline (concat (map (\<lambda>l. l @ [CHR 0x0A]) ls)) = ls @ [[]]"
proof (induction ls)
  case Nil
  show ?case by simp
next
  case (Cons l ls)
  have "split_newline (l @ CHR 0x0A # rest) = l # split_newline rest" if "CHR 0x0A \<notin> set l" for rest
    using that by (induction l) auto
  with Cons show ?case by simp
qed

lemma feed_terminated:
  assumes "\<forall>l\<in>set ls. CHR 0x0A \<notin> set l" "concat cs = concat (map (\<lambda>l. l @ [CHR 0x0A]) ls)"
  shows "feed [] cs = (ls, [])"
  using assms by (simp add: feed_eq split_newline_terminated)

text \<open>
  A frame appends its fragment to the text of the last message. A line whose payload
  does not decode leaves the log as it is.
\<close>

lemma process_line_frame:
  assumes "frame_text env l = Some t" "text' m = JString a"
  shows "process_line env l (pre @ [m]) = pre @ [m \<lparr> text' := JString (a @ t) \<rparr>]"
  using assms
  by (auto simp: frame_text_def process_line_def append_last_text_def lastMessage_def with_text_def
      js_plus_def Let_def split: if_splits sum.splits json.splits option.splits)

lemma process_line_malformed:
  "malformed_frame env l \<Longrightarrow> process_line env l msgs = msgs"
  by (auto simp: malformed_frame_def process_line_def Let_def split: sum.splits)

lemma fold_process_line:
  assumes "\<forall>l\<in>set ls. frame_text env l \<noteq> None \<or> malformed_frame env l" "text' m = JString a"
  shows "fold (process_line env) ls (pre @ [m]) =
         pre @ [m \<lparr> text' := JString (a @ concat (List.map_filter (frame_text env) ls)) \<rparr>]"
  using assms
proof (induction ls arbitrary: m a)
  case Nil
  then show ?case by simp
next
  case (Cons l ls)
  show ?case
  proof (cases "frame_text env l")
    case None
    with Cons.prems have "malformed_frame env l" by simp
    with None Cons show ?thesis by (simp add: process_line_malformed)
  next
    case (Some t)
    have "text' (m \<lparr> text' := JString (a @ t) \<rparr>) = JString (a @ t)" by simp
    from Cons.IH [OF _ this] Cons.prems Some show ?thesis
      by (simp add: process_line_frame)
  qed
qed

subsection \<open>The handler\<close>

text \<open>
  When nothing else runs during the waits, the loop acts on the log alone, and the
  branches and the \<open>try\<close> block handle the response in one piece.
\<close>

lemma read_loop_among_undisturbed:
  "read_loop_among env undisturbed k b cs s = s \<lparr> messages := read_loop env b cs (messages s) \<rparr>"
  by (induction cs arbitrary: k b s) (auto simp: undisturbed_def split: prod.splits)

lemma json_branch_undisturbed:
  "json_branch env undisturbed r s =
     (case response_json env r of
        Inl m \<Rightarrow> (s, Some m)
      | Inr data \<Rightarrow>
          (case get_property env data ''text'' of
             Inl m \<Rightarrow> (s, Some m)
           | Inr None \<Rightarrow> (s, None)
           | Inr (Some t) \<Rightarrow>
               if truthy env t
               then (s \<lparr> messages := set_last_text t (messages s) \<rparr>, None)
               else (s, None)))"
  by (simp add: json_branch_def undisturbed_def)

lemma stream_branch_undisturbed:
  "stream_branch env undisturbed r s =
     (case body r of
        None \<Rightarrow> (s, Some (TypeError_message env ''getReader''))
      | Some b \<Rightarrow>
          (s \<lparr> messages := read_loop env [] (chunks b) (messages s) \<rparr>, failure b))"
  by (simp add: stream_branch_def read_loop_among_undisturbed split: option.splits)

lemma on_response_undisturbed:
  "on_response env undisturbed held r s =
     (if \<not> ok r then
        (case response_text r of
           Inl m \<Rightarrow> (s, Some m)
         | Inr errorText \<Rightarrow>
             (s, Some (''Network response was not ok: '' @ decimal (status r) @ '' '' @ errorText)))
      else
        (let newChatId = headers r ''X-N8N-CHAT-ID'';
             s1 = (if present newChatId \<and> \<not> present held
                   then s \<lparr> chatId := newChatId \<rparr> else s)
         in if is_json (headers r ''content-type'')
            then json_branch env undisturbed r s1
            else stream_branch env undisturbed r s1))"
  by (simp add: on_response_def undisturbed_def)

lemma try_block_undisturbed:
  "try_block env undisturbed fetch s =
     (case fetch (make_request s) of
        Inl m \<Rightarrow> (pending_state s, Some m)
      | Inr r \<Rightarrow> on_response env undisturbed (chatId s) r (pending_state s))"
  by (simp add: try_block_def undisturbed_def Let_def)

lemma messages_pending_state [simp]:
  "messages (pending_state s) = messages s @ [userMessage s, placeholder]"
  by (simp add: pending_state_def Let_def)

lemma chatId_pending_state [simp]: "chatId (pending_state s) = chatId s"
  by (simp add: pending_state_def Let_def)

lemma handleSendMessage_dispatched:
  assumes "dispatched s"
  shows "handleSendMessage env fetch s =
     (case try_block env undisturbed fetch s of
        (s3, thrown) \<Rightarrow>
          ((case thrown of None \<Rightarrow> s3 | Some m \<Rightarrow> catch_block env m s3) \<lparr> isLoading := False \<rparr>,
           [make_request s]))"
  using assms
  by (simp add: dispatched_def handleSendMessage_def handleSendMessage_among_def try_catch_def
      split: prod.splits)

subsection \<open>Reassembly of a stream\<close>

text \<open>
  C1. A dispatched send is answered by an accepted response that takes the streaming
  branch and ends normally. Its body, however it is cut into chunks, is the text of the
  newline-terminated lines \<open>ls\<close>, each a frame carrying the fragment at the same position
  of \<open>ts\<close>. Then the log ends with the user's message and the bot message whose text is
  the fragments concatenated in order.
\<close>

theorem stream_reassembly:
  assumes "dispatched s" "fetch (make_request s) = Inr r" "ok r"
    "\<not> is_json (headers r ''content-type'')" "body r = Some b" "failure b = None"
    "concat (chunks b) = concat (map (\<lambda>l. l @ [CHR 0x0A]) ls)"
    "\<forall>l\<in>set ls. CHR 0x0A \<notin> set l"
    "map (frame_text env) ls = map Some ts"
  shows "messages (fst (handleSendMessage env fetch s)) =
         messages s @ [userMessage s, placeholder \<lparr> text' := JString (concat ts) \<rparr>]"
proof -
  have fr: "\<forall>l\<in>set ls. frame_text env l \<noteq> None \<or> malformed_frame env l"
  proof
    fix l assume "l \<in> set ls"
    then have "frame_text env l \<in> set (map (frame_text env) ls)" by simp
    with assms(9) show "frame_text env l \<noteq> None \<or> malformed_frame env l" by auto
  qed
  have mf: "List.map_filter (frame_text env) ls = ts"
    using assms(9) by (induction ls arbitrary: ts) (auto simp:)
  have "read_loop env [] (chunks b) ((messages s @ [userMessage s]) @ [placeholder]) =
        (messages s @ [userMessage s]) @ [placeholder \<lparr> text' := JString ([] @ concat ts) \<rparr>]"
    unfolding read_loop_feed feed_terminated [OF assms(8) assms(7)]
    using fold_process_line [OF fr, of placeholder "[]" "messages s @ [userMessage s]"] mf
    by (simp add: placeholder_def)
  then show ?thesis
    using assms(1-6)
    by (simp add: handleSendMessage_dispatched try_block_undisturbed on_response_undisturbed stream_branch_undisturbed Let_def)
qed

theorem stream_reassembly_witness:
  \<open>dispatched ready_state \<and> ok hello_response \<and>
   \<not> is_json (headers hello_response ''content-type'') \<and>
   map (frame_text scenario_platform) [''data: {"text":"He"}'', ''data: {"text":"llo"}''] =
     map Some [''He'', ''llo''] \<and>
   messages (fst (handleSendMessage scenario_platform (answering hello_response) ready_state)) =
     messages ready_state @ [userMessage ready_state, placeholder \<lparr> text' := JString ''Hello'' \<rparr>]\<close>
proof -
  let ?ls = \<open>[''data: {"text":"He"}'', ''data: {"text":"llo"}'']\<close>
  let ?b = \<open>\<lparr> chunks = [''data: {"text":"He"}\<newline>data: {"te'', ''xt":"llo"}\<newline>''], failure = None \<rparr>\<close>
  have h1: "dispatched ready_state" by code_simp
  have h2: "answering hello_response (make_request ready_state) = Inr hello_response" by (simp add: answering_def)
  have h3: "ok hello_response" by code_simp
  have h4: "\<not> is_json (headers hello_response ''content-type'')" by code_simp
  have h5: "body hello_response = Some ?b" by (simp add: hello_response_def event_stream_def reply_def)
  have h6: "failure ?b = None" by simp
  have h7: "concat (chunks ?b) = concat (map (\<lambda>l. l @ [CHR 0x0A]) ?ls)" by simp
  have h8: "\<forall>l\<in>set ?ls. CHR 0x0A \<notin> set l" by simp
  have h9: "map (frame_text scenario_platform) ?ls = map Some [''He'', ''llo'']" by code_simp
  from stream_reassembly [where s = ready_state and fetch = "answering hello_response",
      OF h1 h2 h3 h4 h5 h6 h7 h8 h9] h1 h3 h4 h9
  show ?thesis by simp
qed

text \<open>
  C3. As before, but every line is either a frame carrying a fragment or a \<open>data:\<close> line
  whose payload does not decode. The text of the bot message is the concatenation of the
  fragments of the frames that decode, in order, and no error is shown.
\<close>

theorem malformed_frame_skipped:
  assumes "dispatched s" "fetch (make_request s) = Inr r" "ok r"
    "\<not> is_json (headers r ''content-type'')" "body r = Some b" "failure b = None"
    "concat (chunks b) = concat (map (\<lambda>l. l @ [CHR 0x0A]) ls)"
    "\<forall>l\<in>set ls. CHR 0x0A \<notin> set l"
    "\<forall>l\<in>set ls. frame_text env l \<noteq> None \<or> malformed_frame env l"
  shows "messages (fst (handleSendMessage env fetch s)) =
           messages s @ [userMessage s,
             placeholder \<lparr> text' := JString (concat (List.map_filter (frame_text env) ls)) \<rparr>] \<and>
         error (fst (handleSendMessage env fetch s)) = []"
proof -
  have "read_loop env [] (chunks b) ((messages s @ [userMessage s]) @ [placeholder]) =
        (messages s @ [userMessage s]) @
        [placeholder \<lparr> text' := JString ([] @ concat (List.map_filter (frame_text env) ls)) \<rparr>]"
    unfolding read_loop_feed feed_terminated [OF assms(8) assms(7)]
    using fold_process_line [OF assms(9), of placeholder "[]" "messages s @ [userMessage s]"]
    by (simp add: placeholder_def)
  then show ?thesis
    using assms(1-6)
    by (simp add: handleSendMessage_dispatched try_block_undisturbed on_response_undisturbed stream_branch_undisturbed
        Let_def pending_state_def)
qed

theorem malformed_frame_skipped_witness:
  \<open>malformed_frame scenario_platform ''data: {"text":'' \<and>
   frame_text scenario_platform ''data: {"text":"He"}'' = Some ''He'' \<and>
   frame_text scenario_platform ''data: {"text":"llo"}'' = Some ''llo'' \<and>
   messages (fst (handleSendMessage scenario_platform (answering broken_response) ready_state)) =
     messages ready_state @ [userMessage ready_state, placeholder \<lparr> text' := JString ''Hello'' \<rparr>] \<and>
   error (fst (handleSendMessage scenario_platform (answering broken_response) ready_state)) = []\<close>
proof -
  let ?ls = \<open>[''data: {"text":"He"}'', ''data: {"text":'', ''data: {"text":"llo"}'']\<close>
  let ?b = \<open>\<lparr> chunks = [''data: {"text":"He"}\<newline>data: {"text":'', ''\<newline>data: {"text":"llo"}\<newline>''],
              failure = None \<rparr>\<close>
  have f1: \<open>frame_text scenario_platform ''data: {"text":"He"}'' = Some ''He''\<close> by code_simp
  have f2: \<open>malformed_frame scenario_platform ''data: {"text":''\<close> by code_simp
  have f3: \<open>frame_text scenario_platform ''data: {"text":"llo"}'' = Some ''llo''\<close> by code_simp
  have h1: "dispatched ready_state" by code_simp
  have h2: "answering broken_response (make_request ready_state) = Inr broken_response" by (simp add: answering_def)
  have h3: "ok broken_response" by code_simp
  have h4: "\<not> is_json (headers broken_response ''content-type'')" by code_simp
  have h5: "body broken_response = Some ?b" by (simp add: broken_response_def event_stream_def reply_def)
  have h6: "failure ?b = None" by simp
  have h7: "concat (chunks ?b) = concat (map (\<lambda>l. l @ [CHR 0x0A]) ?ls)" by simp
  have h8: "\<forall>l\<in>set ?ls. CHR 0x0A \<notin> set l" by simp
  have h9: "\<forall>l\<in>set ?ls. frame_text scenario_platform l \<noteq> None \<or> malformed_frame scenario_platform l"
    using f1 f2 f3 by simp
  have mf: "List.map_filter (frame_text scenario_platform) ?ls = [''He'', ''llo'']" by code_simp
  from malformed_frame_skipped [where s = ready_state and fetch = "answering broken_response",
      OF h1 h2 h3 h4 h5 h6 h7 h8 h9] f1 f2 f3
  show ?thesis unfolding mf by simp
qed

subsection \<open>What a send leaves alone\<close>

text \<open>
  On a log that is not empty, each updater replaces the last message.
\<close>

lemma set_last_text_snoc [simp]: "set_last_text v (pre @ [m]) = pre @ [m \<lparr> text' := v \<rparr>]"
  by (simp add: set_last_text_def lastMessage_def with_text_def)

lemma seal_last_snoc [simp]:
  "seal_last e (pre @ [m]) = pre @ [m \<lparr> text' := JString e, isError := True \<rparr>]"
  by (simp add: seal_last_def lastMessage_def with_text_def)

lemma append_last_text_snoc [simp]:
  "append_last_text env v (pre @ [m]) =
     (case js_plus env (text' m) v of
        None \<Rightarrow> pre @ [m]
      | Some w \<Rightarrow> pre @ [m \<lparr> text' := w \<rparr>])"
  by (simp add: append_last_text_def lastMessage_def with_text_def split: option.splits)

text \<open>
  Every step of the streaming branch, each branch and the \<open>catch\<close> block keep all
  messages but the last; the URL is never written, and the correlation id is written
  only by an accepted response while none is held.
\<close>

lemma process_line_snoc: "\<exists>m'. process_line env l (pre @ [m]) = pre @ [m']"
  by (simp add: process_line_def Let_def split: sum.splits option.splits)

lemma fold_process_line_snoc: "\<exists>m'. fold (process_line env) ls (pre @ [m]) = pre @ [m']"
proof (induction ls arbitrary: m)
  case Nil
  show ?case by simp
next
  case (Cons l ls)
  obtain m1 where "process_line env l (pre @ [m]) = pre @ [m1]"
    using process_line_snoc by blast
  with Cons [of m1] show ?case by simp
qed

lemma read_loop_snoc: "\<exists>m'. read_loop env b cs (pre @ [m]) = pre @ [m']"
  by (simp add: read_loop_feed fold_process_line_snoc)

lemma json_branch_frame:
  assumes "json_branch env undisturbed r s = (s', thrown)" "messages s = pre @ [m]"
  shows "\<exists>m'. messages s' = pre @ [m']" "chatId s' = chatId s" "n8nWebhookUrl s' = n8nWebhookUrl s"
  using assms by (auto simp: json_branch_undisturbed split: sum.splits option.splits if_splits)

lemma stream_branch_frame:
  assumes "stream_branch env undisturbed r s = (s', thrown)" "messages s = pre @ [m]"
  shows "\<exists>m'. messages s' = pre @ [m']" "chatId s' = chatId s" "n8nWebhookUrl s' = n8nWebhookUrl s"
  using assms read_loop_snoc [of env "[]" _ pre m]
  by (auto simp: stream_branch_undisturbed split: option.splits)

lemma on_response_frame:
  assumes "on_response env undisturbed held r s = (s', thrown)" "messages s = pre @ [m]"
  shows "\<exists>m'. messages s' = pre @ [m']" "n8nWebhookUrl s' = n8nWebhookUrl s"
proof -
  let ?s1 = "if present (headers r ''X-N8N-CHAT-ID'') \<and> \<not> present held
             then s \<lparr> chatId := headers r ''X-N8N-CHAT-ID'' \<rparr> else s"
  have m1: "messages ?s1 = pre @ [m]" and u1: "n8nWebhookUrl ?s1 = n8nWebhookUrl s"
    using assms(2) by auto
  show "\<exists>m'. messages s' = pre @ [m']"
  proof (cases "ok r")
    case False
    with assms show ?thesis by (auto simp: on_response_undisturbed split: sum.splits)
  next
    case True
    with assms(1) have "json_branch env undisturbed r ?s1 = (s', thrown) \<or> stream_branch env undisturbed r ?s1 = (s', thrown)"
      by (auto simp add: on_response_undisturbed Let_def split: if_splits)
    then show ?thesis
      using json_branch_frame(1) [OF _ m1] stream_branch_frame(1) [OF _ m1] by blast
  qed
  show "n8nWebhookUrl s' = n8nWebhookUrl s"
  proof (cases "ok r")
    case False
    with assms show ?thesis by (auto simp: on_response_undisturbed split: sum.splits)
  next
    case True
    with assms(1) have "json_branch env undisturbed r ?s1 = (s', thrown) \<or> stream_branch env undisturbed r ?s1 = (s', thrown)"
      by (auto simp add: on_response_undisturbed Let_def split: if_splits)
    then show ?thesis
      using json_branch_frame(3) [OF _ m1] stream_branch_frame(3) [OF _ m1] u1 by metis
  qed
qed

lemma on_response_held:
  assumes "on_response env undisturbed held r s = (s', thrown)" "present held \<or> \<not> ok r"
  shows "chatId s' = chatId s"
proof (cases "ok r")
  case False
  with assms show ?thesis by (auto simp: on_response_undisturbed split: sum.splits)
next
  case True
  with assms have "json_branch env undisturbed r s = (s', thrown) \<or> stream_branch env undisturbed r s = (s', thrown)"
    by (auto simp add: on_response_undisturbed Let_def split: if_splits)
  then show ?thesis
    by (auto simp: json_branch_undisturbed stream_branch_undisturbed split: sum.splits option.splits if_splits)
qed

lemma n8nWebhookUrl_pending_state [simp]: "n8nWebhookUrl (pending_state s) = n8nWebhookUrl s"
  by (simp add: pending_state_def Let_def)

lemma try_block_frame:
  assumes "try_block env undisturbed fetch s = (s', thrown)"
  shows "\<exists>m'. messages s' = (messages s @ [userMessage s]) @ [m']" "n8nWebhookUrl s' = n8nWebhookUrl s"
  using assms on_response_frame [of env "chatId s" _ "pending_state s" s' thrown "messages s @ [userMessage s]" placeholder]
  by (auto simp: try_block_undisturbed split: sum.splits)

lemma try_block_held:
  assumes "try_block env undisturbed fetch s = (s', thrown)" "present (chatId s) \<or> (\<forall>r. fetch (make_request s) = Inr r \<longrightarrow> \<not> ok r)"
  shows "chatId s' = chatId s"
  using assms on_response_held [of env "chatId s" _ "pending_state s" s' thrown]
  by (auto simp: try_block_undisturbed split: sum.splits)

lemma catch_block_frame:
  assumes "messages s = pre @ [m]"
  shows "\<exists>m'. messages (catch_block env e s) = pre @ [m']" "chatId (catch_block env e s) = chatId s"
    "n8nWebhookUrl (catch_block env e s) = n8nWebhookUrl s"
  using assms by (simp_all add: catch_block_def Let_def)

lemma handleSendMessage_frame:
  assumes "dispatched s"
  shows "\<exists>m'. messages (fst (handleSendMessage env fetch s)) = (messages s @ [userMessage s]) @ [m']"
proof -
  obtain s3 thrown where t: "try_block env undisturbed fetch s = (s3, thrown)" by (cases "try_block env undisturbed fetch s")
  from try_block_frame(1) [OF t] obtain m3 where m3: "messages s3 = (messages s @ [userMessage s]) @ [m3]" by blast
  show ?thesis
    using assms t m3 catch_block_frame(1) [OF m3]
    by (cases thrown) (auto simp add: handleSendMessage_dispatched)
qed

lemma handleSendMessage_url: "n8nWebhookUrl (fst (handleSendMessage env fetch s)) = n8nWebhookUrl s"
proof (cases "dispatched s")
  case False
  then show ?thesis by (auto simp: dispatched_def handleSendMessage_def handleSendMessage_among_def try_catch_def)
next
  case True
  obtain s3 thrown where t: "try_block env undisturbed fetch s = (s3, thrown)" by (cases "try_block env undisturbed fetch s")
  from try_block_frame(1) [OF t] obtain m3 where m3: "messages s3 = (messages s @ [userMessage s]) @ [m3]" by blast
  show ?thesis
    using True t try_block_frame(2) [OF t] catch_block_frame(3) [OF m3]
    by (cases thrown) (auto simp add: handleSendMessage_dispatched)
qed

lemma handleSendMessage_held:
  assumes "present (chatId s) \<or> (\<forall>r. fetch (make_request s) = Inr r \<longrightarrow> \<not> ok r)"
  shows "chatId (fst (handleSendMessage env fetch s)) = chatId s"
proof (cases "dispatched s")
  case False
  then show ?thesis by (auto simp: dispatched_def handleSendMessage_def handleSendMessage_among_def try_catch_def)
next
  case True
  obtain s3 thrown where t: "try_block env undisturbed fetch s = (s3, thrown)" by (cases "try_block env undisturbed fetch s")
  from try_block_frame(1) [OF t] obtain m3 where m3: "messages s3 = (messages s @ [userMessage s]) @ [m3]" by blast
  show ?thesis
    using True t try_block_held [OF t assms] catch_block_frame(2) [OF m3]
    by (cases thrown) (auto simp add: handleSendMessage_dispatched)
qed

lemma handleSendMessage_isLoading:
  "dispatched s \<Longrightarrow> \<not> isLoading (fst (handleSendMessage env fetch s))"
  by (simp add: handleSendMessage_dispatched split: prod.splits)

subsection \<open>The loading flag\<close>

text \<open>
  When nothing else runs during the waits, the \<open>try\<close> block and the \<open>catch\<close> block leave the
  loading flag as line 56 has set it.
\<close>

lemma try_block_isLoading:
  assumes "try_block env undisturbed fetch s = (s', thrown)"
  shows "isLoading s'"
proof -
  have p: "isLoading (pending_state s)" by (simp add: pending_state_def Let_def)
  have "isLoading t" if "on_response env undisturbed held r (pending_state s) = (t, e)"
    for held r t e
    using that p
    by (auto simp: on_response_undisturbed json_branch_undisturbed stream_branch_undisturbed
        Let_def split: if_splits sum.splits option.splits)
  with assms p show ?thesis
    by (auto simp: try_block_undisturbed split: sum.splits)
qed

lemma try_catch_isLoading: "isLoading (try_catch env undisturbed fetch s)"
proof -
  obtain s' thrown where t: "try_block env undisturbed fetch s = (s', thrown)"
    by (cases "try_block env undisturbed fetch s")
  from try_block_isLoading [OF t] t show ?thesis
    by (cases thrown) (simp_all add: try_catch_def catch_block_def Let_def)
qed

text \<open>
  C8. A dispatched send raises the loading flag before the request (line 56). When
  nothing else runs during the waits, the flag is still raised when the \<open>finally\<close> block is
  entered, on every path through the \<open>try\<close> and \<open>catch\<close> blocks: the request may be rejected,
  the response refused, the body may fail to decode or break off, and \<open>JSON.parse\<close> may
  throw inside the \<open>catch\<close> block. The handler returns that state with the flag cleared.
  Whatever else runs during the waits, the handler returns the state it has when the
  \<open>finally\<close> block is entered, with the flag cleared.
\<close>

theorem loading_flag_cleared:
  assumes "dispatched s"
  shows "isLoading (pending_state s) \<and>
         isLoading (try_catch env undisturbed fetch s) \<and>
         fst (handleSendMessage env fetch s) =
           (try_catch env undisturbed fetch s) \<lparr> isLoading := False \<rparr> \<and>
         fst (handleSendMessage_among env others fetch s) =
           (try_catch env others fetch s) \<lparr> isLoading := False \<rparr> \<and>
         \<not> isLoading (fst (handleSendMessage_among env others fetch s))"
  using assms try_catch_isLoading [of env fetch s]
  by (simp add: dispatched_def handleSendMessage_def handleSendMessage_among_def
      pending_state_def Let_def)

theorem loading_flag_cleared_witness:
  \<open>dispatched ready_state \<and> \<not> isLoading ready_state \<and>
   isLoading (pending_state ready_state) \<and>
   match_braces ''Network response was not ok: 500 upstream {not json}'' = Some ''{not json}'' \<and>
   isl (JSON_parse scenario_platform ''{not json}'') \<and>
   isLoading (try_catch scenario_platform undisturbed (answering failing_response) ready_state) \<and>
   \<not> isLoading (fst (handleSendMessage scenario_platform (answering failing_response) ready_state)) \<and>
   isLoading (try_catch scenario_platform undisturbed (rejecting ''Failed to fetch'') ready_state) \<and>
   \<not> isLoading (fst (handleSendMessage scenario_platform (rejecting ''Failed to fetch'') ready_state)) \<and>
   isLoading (try_catch scenario_platform undisturbed (answering hello_response) ready_state) \<and>
   \<not> isLoading (fst (handleSendMessage scenario_platform (answering hello_response) ready_state)) \<and>
   isLoading (try_catch scenario_platform undisturbed (answering interrupted_response) ready_state) \<and>
   \<not> isLoading (fst (handleSendMessage scenario_platform (answering interrupted_response) ready_state)) \<and>
   error (fst (handleSendMessage scenario_platform (answering interrupted_response) ready_state)) =
     ''Error: network error. Please check the webhook URL and your n8n workflow.'' \<and>
   \<not> isLoading (fst (handleSendMessage_among scenario_platform overlapping
       (answering hello_response) ready_state))\<close>
proof -
  have h: "dispatched ready_state" by code_simp
  have n: "\<not> isLoading ready_state" by code_simp
  have m: \<open>match_braces ''Network response was not ok: 500 upstream {not json}'' = Some ''{not json}''\<close>
    by code_simp
  have p: \<open>isl (JSON_parse scenario_platform ''{not json}'')\<close> by code_simp
  have e: \<open>error (fst (handleSendMessage scenario_platform (answering interrupted_response) ready_state)) =
     ''Error: network error. Please check the webhook URL and your n8n workflow.''\<close> by code_simp
  note L = loading_flag_cleared [OF h, where env = scenario_platform]
  from L [of "answering failing_response" undisturbed]
    L [of "rejecting ''Failed to fetch''" undisturbed]
    L [of "answering hello_response" overlapping]
    L [of "answering interrupted_response" undisturbed] h n m p e
  show ?thesis by simp
qed

subsection \<open>The message log\<close>

text \<open>
  C9. On a log that is not empty, the three updates of a response (set the text, append
  to the text, seal with an error) keep the length of the log and every message but the
  last. A dispatched send returns with the log two messages longer, and all but the
  last are the old log followed by the user's message.
\<close>

theorem only_last_message_replaced:
  assumes "prev \<noteq> []" "dispatched s"
  shows "length (set_last_text v prev) = length prev \<and>
         butlast (set_last_text v prev) = butlast prev \<and>
         length (append_last_text env v prev) = length prev \<and>
         butlast (append_last_text env v prev) = butlast prev \<and>
         length (seal_last e prev) = length prev \<and>
         butlast (seal_last e prev) = butlast prev \<and>
         length (messages (fst (handleSendMessage env fetch s))) = length (messages s) + 2 \<and>
         butlast (messages (fst (handleSendMessage env fetch s))) = messages s @ [userMessage s]"
proof -
  from assms(1) obtain pre m where p: "prev = pre @ [m]"
    by (metis append_butlast_last_id)
  obtain m' where
    "messages (fst (handleSendMessage env fetch s)) = (messages s @ [userMessage s]) @ [m']"
    using handleSendMessage_frame [OF assms(2)] by blast
  then show ?thesis unfolding p by (simp add: butlast_append split: option.splits)
qed

theorem only_last_message_replaced_witness:
  \<open>messages ready_state \<noteq> [] \<and> dispatched ready_state \<and>
   length (messages (fst (handleSendMessage scenario_platform (answering failing_response) ready_state))) = 3 \<and>
   butlast (messages (fst (handleSendMessage scenario_platform (answering failing_response) ready_state))) =
     messages ready_state @ [userMessage ready_state] \<and>
   butlast (seal_last ''e'' (messages ready_state)) = [] \<and>
   butlast (set_last_text (JString ''t'') (messages ready_state)) = [] \<and>
   butlast (append_last_text scenario_platform (JString ''t'') (messages ready_state)) = []\<close>
proof -
  have h1: "messages ready_state \<noteq> []" by code_simp
  have h2: "dispatched ready_state" by code_simp
  have l: "length (messages ready_state) = 1" by code_simp
  have b: "butlast (messages ready_state) = []" by code_simp
  from only_last_message_replaced [OF h1 h2, of "JString ''t''" scenario_platform "''e''"
      "answering failing_response"] h1 h2 l b
  show ?thesis by simp
qed

subsection \<open>The correlation id\<close>

text \<open>
  C10. When no id is held and the response is refused (status outside 200 to 299), the
  send returns with the id as it was, whatever the response carries. The next send,
  with any input that is not blank, sends one request, and its only header is the
  content type.
\<close>

theorem failed_response_id_not_stored:
  assumes "dispatched s" "fetch (make_request s) = Inr r" "\<not> ok r" "\<not> present (chatId s)"
    "trim i \<noteq> []"
  shows "chatId (fst (handleSendMessage env fetch s)) = chatId s \<and>
         (let s' = (fst (handleSendMessage env fetch s)) \<lparr> input := i \<rparr>
          in snd (handleSendMessage env fetch' s') = [make_request s'] \<and>
             request_headers (make_request s') = [(''Content-Type'', ''application/json'')])"
proof -
  let ?s1 = "fst (handleSendMessage env fetch s)"
  have c: "chatId ?s1 = chatId s"
    using handleSendMessage_held [of s fetch env] assms(2,3) by simp
  have "dispatched (?s1 \<lparr> input := i \<rparr>)"
    using assms(1,5) handleSendMessage_isLoading [OF assms(1), of env fetch]
      handleSendMessage_url [of env fetch s]
    by (simp add: dispatched_def)
  then have "snd (handleSendMessage env fetch' (?s1 \<lparr> input := i \<rparr>)) = [make_request (?s1 \<lparr> input := i \<rparr>)]"
    by (simp add: handleSendMessage_dispatched split: prod.splits)
  moreover have "request_headers (make_request (?s1 \<lparr> input := i \<rparr>)) = [(''Content-Type'', ''application/json'')]"
    using c assms(4) by (auto simp: make_request_def present_def split: option.splits)
  ultimately show ?thesis using c by (simp add: Let_def)
qed

theorem failed_response_id_not_stored_witness:
  \<open>dispatched ready_state \<and> \<not> ok failing_response \<and>
   headers failing_response ''X-N8N-CHAT-ID'' = Some ''A'' \<and>
   chatId ready_state = None \<and>
   chatId (fst (handleSendMessage scenario_platform (answering failing_response) ready_state)) = None \<and>
   map request_headers (snd (handleSendMessage scenario_platform (answering hello_response)
     ((fst (handleSendMessage scenario_platform (answering failing_response) ready_state))
        \<lparr> input := ''again'' \<rparr>))) = [[(''Content-Type'', ''application/json'')]]\<close>
proof -
  have h1: "dispatched ready_state" by code_simp
  have h2: "answering failing_response (make_request ready_state) = Inr failing_response" by (simp add: answering_def)
  have h3: "\<not> ok failing_response" by code_simp
  have h4: "\<not> present (chatId ready_state)" by code_simp
  have h5: "trim ''again'' \<noteq> []" by code_simp
  have a: "headers failing_response ''X-N8N-CHAT-ID'' = Some ''A''" by code_simp
  have c: "chatId ready_state = None" by code_simp
  from failed_response_id_not_stored [where s = ready_state
      and fetch = "answering failing_response" and env = scenario_platform
      and fetch' = "answering hello_response", OF h1 h2 h3 h4 h5]
    h1 h3 a c
  show ?thesis by (simp add: Let_def)
qed

text \<open>
  An accepted response that carries an id while none is held stores it.
\<close>

lemma on_response_stores:
  assumes "on_response env undisturbed held r s = (s', thrown)" "ok r" "\<not> present held"
    "headers r ''X-N8N-CHAT-ID'' = Some a" "a \<noteq> []"
  shows "chatId s' = Some a"
proof -
  let ?s1 = "s \<lparr> chatId := Some a \<rparr>"
  from assms have "json_branch env undisturbed r ?s1 = (s', thrown) \<or> stream_branch env undisturbed r ?s1 = (s', thrown)"
    by (auto simp add: on_response_undisturbed Let_def present_def split: if_splits)
  then show ?thesis
    by (auto simp: json_branch_undisturbed stream_branch_undisturbed split: sum.splits option.splits if_splits)
qed

lemma handleSendMessage_stores:
  assumes "dispatched s" "\<not> present (chatId s)" "fetch (make_request s) = Inr r" "ok r"
    "headers r ''X-N8N-CHAT-ID'' = Some a" "a \<noteq> []"
  shows "chatId (fst (handleSendMessage env fetch s)) = Some a"
proof -
  obtain s3 thrown where t: "try_block env undisturbed fetch s = (s3, thrown)" by (cases "try_block env undisturbed fetch s")
  from try_block_frame(1) [OF t] obtain m3 where
    m3: "messages s3 = (messages s @ [userMessage s]) @ [m3]" by blast
  from t assms(3) have "on_response env undisturbed (chatId s) r (pending_state s) = (s3, thrown)"
    by (simp add: try_block_undisturbed)
  from on_response_stores [OF this assms(4) assms(2) assms(5) assms(6)]
  have "chatId s3 = Some a" .
  then show ?thesis
    using assms(1) t catch_block_frame(2) [OF m3]
    by (cases thrown) (auto simp add: handleSendMessage_dispatched)
qed

text \<open>
  C4, as amended. The sends run one at a time: nothing else runs while a send waits.
  When no id is held and a dispatched send is answered by an accepted response (status
  200 to 299) that carries a non-empty id, the send returns holding that id, and so
  does the next send, whatever its input and whatever the network answers. In general
  a send that starts with an id held returns with the same id, and a send that is
  answered by a refused response returns with the id as it was, held or not.
\<close>

theorem correlation_id_first_accepted_wins:
  assumes "dispatched s" "\<not> present (chatId s)" "fetch (make_request s) = Inr r" "ok r"
    "headers r ''X-N8N-CHAT-ID'' = Some a" "a \<noteq> []"
  shows "chatId (fst (handleSendMessage env fetch s)) = Some a \<and>
         chatId (fst (handleSendMessage env fetch'
           ((fst (handleSendMessage env fetch s)) \<lparr> input := i \<rparr>))) = Some a \<and>
         (present (chatId h) \<longrightarrow> chatId (fst (handleSendMessage env fetch' h)) = chatId h) \<and>
         (fetch' (make_request g) = Inr r' \<and> \<not> ok r' \<longrightarrow>
            chatId (fst (handleSendMessage env fetch' g)) = chatId g)"
proof -
  let ?s1 = "fst (handleSendMessage env fetch s)"
  have c: "chatId ?s1 = Some a"
    using assms by (rule handleSendMessage_stores [of s fetch r a env])
  then have "present (chatId (?s1 \<lparr> input := i \<rparr>))" using assms(6) by (simp add: present_def)
  then have "chatId (fst (handleSendMessage env fetch' (?s1 \<lparr> input := i \<rparr>))) =
             chatId (?s1 \<lparr> input := i \<rparr>)"
    using handleSendMessage_held by blast
  moreover have "chatId (fst (handleSendMessage env fetch' g)) = chatId g"
    if "fetch' (make_request g) = Inr r'" "\<not> ok r'"
    using that handleSendMessage_held [of g fetch' env] by simp
  ultimately show ?thesis using c handleSendMessage_held [of h fetch' env] by simp
qed

theorem correlation_id_first_accepted_wins_witness:
  \<open>dispatched ready_state \<and> chatId ready_state = None \<and>
   ok (accepted_response ''A'') \<and> ok (accepted_response ''B'') \<and>
   headers (accepted_response ''A'') ''X-N8N-CHAT-ID'' = Some ''A'' \<and>
   headers (accepted_response ''B'') ''X-N8N-CHAT-ID'' = Some ''B'' \<and>
   chatId (fst (handleSendMessage scenario_platform (answering (accepted_response ''A'')) ready_state)) =
     Some ''A'' \<and>
   chatId (fst (handleSendMessage scenario_platform (answering (accepted_response ''B''))
     ((fst (handleSendMessage scenario_platform (answering (accepted_response ''A'')) ready_state))
        \<lparr> input := ''again'' \<rparr>))) = Some ''A'' \<and>
   chatId (fst (handleSendMessage scenario_platform (answering (accepted_response ''B''))
     (ready_state \<lparr> chatId := Some ''A'' \<rparr>))) = Some ''A'' \<and>
   \<not> ok failing_response \<and> headers failing_response ''X-N8N-CHAT-ID'' = Some ''A'' \<and>
   chatId (fst (handleSendMessage scenario_platform (answering failing_response)
     (ready_state \<lparr> chatId := Some ''C'' \<rparr>))) = Some ''C''\<close>
proof -
  have h1: "dispatched ready_state" by code_simp
  have h2: "\<not> present (chatId ready_state)" by code_simp
  have h3: "answering (accepted_response ''A'') (make_request ready_state) =
            Inr (accepted_response ''A'')" by (simp add: answering_def)
  have h4: "ok (accepted_response ''A'')" by code_simp
  have h5: "headers (accepted_response ''A'') ''X-N8N-CHAT-ID'' = Some ''A''" by code_simp
  have h6: "''A'' \<noteq> []" by simp
  have b1: "ok (accepted_response ''B'')" by code_simp
  have b2: "headers (accepted_response ''B'') ''X-N8N-CHAT-ID'' = Some ''B''" by code_simp
  have c: "chatId ready_state = None" by code_simp
  have p: "present (chatId (ready_state \<lparr> chatId := Some ''A'' \<rparr>))" by code_simp
  have f1: "\<not> ok failing_response" by code_simp
  have f2: "headers failing_response ''X-N8N-CHAT-ID'' = Some ''A''" by code_simp
  have f3: "answering failing_response (make_request (ready_state \<lparr> chatId := Some ''C'' \<rparr>)) =
            Inr failing_response" by (simp add: answering_def)
  have f4: "chatId (ready_state \<lparr> chatId := Some ''C'' \<rparr>) = Some ''C''" by simp
  note W = correlation_id_first_accepted_wins [where s = ready_state
      and fetch = "answering (accepted_response ''A'')" and r = "accepted_response ''A''"
      and a = "''A''" and env = scenario_platform, OF h1 h2 h3 h4 h5 h6]
  from W [where fetch' = "answering (accepted_response ''B'')" and i = "''again''"
        and h = "ready_state \<lparr> chatId := Some ''A'' \<rparr>"]
    W [where fetch' = "answering failing_response"
        and g = "ready_state \<lparr> chatId := Some ''C'' \<rparr>" and r' = failing_response]
    h1 h4 h5 b1 b2 c p f1 f2 f3 f4
  show ?thesis by simp
qed

text \<open>
  The claim as stated fails when the first response is refused: its id is not stored,
  and the id of the second response is.
\<close>

theorem first_response_value_lost_counterexample:
  \<open>headers failing_response ''X-N8N-CHAT-ID'' = Some ''A'' \<and>
   headers (accepted_response ''B'') ''X-N8N-CHAT-ID'' = Some ''B'' \<and>
   chatId ready_state = None \<and>
   chatId (fst (handleSendMessage scenario_platform (answering (accepted_response ''B''))
     ((fst (handleSendMessage scenario_platform (answering failing_response) ready_state))
        \<lparr> input := ''again'' \<rparr>))) = Some ''B''\<close>
  by code_simp

text \<open>
  Sends that overlap are another matter. The handler tests the id it closed over when it
  was called (line 84), not the id held when the response arrives: a send that resumes
  after New Chat and a second send stores its id over the one the second send stored.
\<close>

lemma overlapping_sends_overwrite:
  \<open>chatId (overlapping 0 (pending_state ready_state)) = Some ''B'' \<and>
   chatId (fst (handleSendMessage_among scenario_platform overlapping
     (answering (accepted_response ''A'')) ready_state)) = Some ''A''\<close>
  by code_simp

subsection \<open>Sends that are not dispatched\<close>

text \<open>
  C5, as amended. With a blank input the handler returns at once: no request, and the
  state, banner included, is as it was. With an input that is not blank, no request
  pending and a URL that does not start with \<open>http\<close>, the handler sends no request and
  changes only the banner, which it sets to the fixed text.
\<close>

theorem rejected_send:
  "(trim (input s) = [] \<longrightarrow> handleSendMessage env fetch s = (s, [])) \<and>
   (trim (input s) \<noteq> [] \<and> \<not> isLoading s \<and> \<not> startsWith (n8nWebhookUrl s) ''http'' \<longrightarrow>
      handleSendMessage env fetch s =
        (s \<lparr> error := ''Please enter a valid n8n Webhook URL to start chatting.'' \<rparr>, []))"
  by (simp add: handleSendMessage_def handleSendMessage_among_def try_catch_def)

theorem rejected_send_witness:
  \<open>trim (input (ready_state \<lparr> input := ''  '' \<rparr>)) = [] \<and>
   handleSendMessage scenario_platform (answering hello_response) (ready_state \<lparr> input := ''  '' \<rparr>) =
     (ready_state \<lparr> input := ''  '' \<rparr>, []) \<and>
   trim (input (ready_state \<lparr> n8nWebhookUrl := ''localhost:5678'' \<rparr>)) \<noteq> [] \<and>
   \<not> isLoading (ready_state \<lparr> n8nWebhookUrl := ''localhost:5678'' \<rparr>) \<and>
   \<not> startsWith (n8nWebhookUrl (ready_state \<lparr> n8nWebhookUrl := ''localhost:5678'' \<rparr>)) ''http'' \<and>
   handleSendMessage scenario_platform (answering hello_response)
       (ready_state \<lparr> n8nWebhookUrl := ''localhost:5678'' \<rparr>) =
     (ready_state \<lparr> n8nWebhookUrl := ''localhost:5678'',
        error := ''Please enter a valid n8n Webhook URL to start chatting.'' \<rparr>, [])\<close>
proof -
  have a: "trim (input (ready_state \<lparr> input := ''  '' \<rparr>)) = []" by code_simp
  have b: "trim (input (ready_state \<lparr> n8nWebhookUrl := ''localhost:5678'' \<rparr>)) \<noteq> []" by code_simp
  have c: "\<not> isLoading (ready_state \<lparr> n8nWebhookUrl := ''localhost:5678'' \<rparr>)" by code_simp
  have d: "\<not> startsWith (n8nWebhookUrl (ready_state \<lparr> n8nWebhookUrl := ''localhost:5678'' \<rparr>)) ''http''"
    by code_simp
  from rejected_send [of "ready_state \<lparr> input := ''  '' \<rparr>" scenario_platform "answering hello_response"]
    rejected_send [of "ready_state \<lparr> n8nWebhookUrl := ''localhost:5678'' \<rparr>" scenario_platform
      "answering hello_response"] a b c d
  show ?thesis by simp
qed

text \<open>
  The claim as stated fails on a blank input: no banner is produced.
\<close>

theorem blank_input_no_banner_counterexample:
  \<open>trim (input (ready_state \<lparr> input := ''  '' \<rparr>)) = [] \<and>
   error (fst (handleSendMessage scenario_platform (answering hello_response)
     (ready_state \<lparr> input := ''  '' \<rparr>))) = []\<close>
  by code_simp

subsection \<open>The two response branches\<close>

lemma is_json_iff:
  "is_json (headers r ''content-type'') =
     (\<exists>c. headers r ''content-type'' = Some c \<and> includes_str c ''application/json'')"
  by (cases "headers r ''content-type''") (auto simp: is_json_def)

lemma response_text_intact:
  "body r = Some b \<Longrightarrow> failure b = None \<Longrightarrow> response_text r = Inr (concat (chunks b))"
  by (simp add: response_text_def)

lemma handleSendMessage_response:
  assumes "dispatched s" "fetch (make_request s) = Inr r"
    "on_response env undisturbed (chatId s) r (pending_state s) = (s3, thrown)"
  shows "fst (handleSendMessage env fetch s) =
         (case thrown of None \<Rightarrow> s3 | Some m \<Rightarrow> catch_block env m s3) \<lparr> isLoading := False \<rparr>"
  using assms by (simp add: handleSendMessage_dispatched try_block_undisturbed)

text \<open>
  C6. A dispatched send is answered by an accepted response whose body arrives whole.
  When the declared content type includes \<open>application/json\<close>, the whole body is decoded
  once: an object with a string under \<open>text\<close> makes that string the text of the bot
  message, an object without \<open>text\<close> leaves the placeholder, and a body that does not decode
  ends in the error message, with no attempt to read it as a stream. When the content
  type is absent or does not include \<open>application/json\<close>, the log is what the read loop
  makes of the chunks. The update of the first branch sets the text, whatever it was.
\<close>

theorem response_classification:
  assumes "dispatched s" "fetch (make_request s) = Inr r" "ok r" "body r = Some b"
    "failure b = None"
  shows
    "(headers r ''content-type'' = Some c \<and> includes_str c ''application/json'' \<and>
      JSON_parse env (concat (chunks b)) = Inr (JObject kvs) \<and>
      map_of kvs ''text'' = Some (JString t) \<longrightarrow>
        messages (fst (handleSendMessage env fetch s)) =
          messages s @ [userMessage s, placeholder \<lparr> text' := JString t \<rparr>]) \<and>
     (headers r ''content-type'' = Some c \<and> includes_str c ''application/json'' \<and>
      JSON_parse env (concat (chunks b)) = Inr (JObject kvs) \<and> map_of kvs ''text'' = None \<longrightarrow>
        messages (fst (handleSendMessage env fetch s)) =
          messages s @ [userMessage s, placeholder]) \<and>
     (headers r ''content-type'' = Some c \<and> includes_str c ''application/json'' \<and>
      JSON_parse env (concat (chunks b)) = Inl e \<longrightarrow>
        messages (fst (handleSendMessage env fetch s)) =
          messages s @ [userMessage s,
            placeholder \<lparr> text' := JString (userFriendlyError env e), isError := True \<rparr>]) \<and>
     (headers r ''content-type'' = None \<or>
      (headers r ''content-type'' = Some c \<and> \<not> includes_str c ''application/json'') \<longrightarrow>
        messages (fst (handleSendMessage env fetch s)) =
          read_loop env [] (chunks b) (messages s @ [userMessage s, placeholder])) \<and>
     set_last_text v (pre @ [m]) = pre @ [m \<lparr> text' := v \<rparr>]"
proof -
  let ?p = "pending_state s"
  let ?final = "messages (fst (handleSendMessage env fetch s))"
  let ?s1 = "if present (headers r ''X-N8N-CHAT-ID'') \<and> \<not> present (chatId s)
             then ?p \<lparr> chatId := headers r ''X-N8N-CHAT-ID'' \<rparr> else ?p"
  have m1: "messages ?s1 = (messages s @ [userMessage s]) @ [placeholder]" by simp
  have rj: "response_json env r = JSON_parse env (concat (chunks b))"
    using assms(4,5) by (simp add: response_json_def response_text_intact)
  have j: "on_response env undisturbed (chatId s) r ?p = json_branch env undisturbed r ?s1"
    if "headers r ''content-type'' = Some c" "includes_str c ''application/json''"
    using that assms(3) is_json_iff [of r] by (simp add: on_response_undisturbed Let_def)
  have st: "on_response env undisturbed (chatId s) r ?p = stream_branch env undisturbed r ?s1"
    if "headers r ''content-type'' = None \<or>
        (headers r ''content-type'' = Some c \<and> \<not> includes_str c ''application/json'')"
    using that assms(3) is_json_iff [of r] by (auto simp add: on_response_undisturbed Let_def)
  have a: "?final = messages s @ [userMessage s, placeholder \<lparr> text' := JString t \<rparr>]"
    if "headers r ''content-type'' = Some c" "includes_str c ''application/json''"
      "JSON_parse env (concat (chunks b)) = Inr (JObject kvs)"
      "map_of kvs ''text'' = Some (JString t)"
  proof (cases "t = []")
    case True
    with that(3,4) rj have "json_branch env undisturbed r ?s1 = (?s1, None)" by (simp add: json_branch_undisturbed)
    with j [OF that(1,2)] have "on_response env undisturbed (chatId s) r ?p = (?s1, None)" by simp
    from handleSendMessage_response [of s fetch r env, OF assms(1,2) this] True show ?thesis
      by (simp add: placeholder_def)
  next
    case False
    with that(3,4) rj m1
    have "json_branch env undisturbed r ?s1 =
          (?s1 \<lparr> messages := (messages s @ [userMessage s]) @ [placeholder \<lparr> text' := JString t \<rparr>] \<rparr>,
           None)"
      by (simp add: json_branch_undisturbed del: messages_pending_state)
         (simp add: set_last_text_snoc [of _ "messages s @ [userMessage s]" placeholder, simplified])
    with j [OF that(1,2)] have "on_response env undisturbed (chatId s) r ?p =
          (?s1 \<lparr> messages := (messages s @ [userMessage s]) @ [placeholder \<lparr> text' := JString t \<rparr>] \<rparr>,
           None)" by simp
    from handleSendMessage_response [of s fetch r env, OF assms(1,2) this] show ?thesis by simp
  qed
  have b: "?final = messages s @ [userMessage s, placeholder]"
    if "headers r ''content-type'' = Some c" "includes_str c ''application/json''"
      "JSON_parse env (concat (chunks b)) = Inr (JObject kvs)" "map_of kvs ''text'' = None"
  proof -
    from that(3,4) rj have "json_branch env undisturbed r ?s1 = (?s1, None)" by (simp add: json_branch_undisturbed)
    with j [OF that(1,2)] have "on_response env undisturbed (chatId s) r ?p = (?s1, None)" by simp
    from handleSendMessage_response [of s fetch r env, OF assms(1,2) this] show ?thesis by simp
  qed
  have c: "?final = messages s @ [userMessage s,
            placeholder \<lparr> text' := JString (userFriendlyError env e), isError := True \<rparr>]"
    if "headers r ''content-type'' = Some c" "includes_str c ''application/json''"
      "JSON_parse env (concat (chunks b)) = Inl e"
  proof -
    from that(3) rj have "json_branch env undisturbed r ?s1 = (?s1, Some e)" by (simp add: json_branch_undisturbed)
    with j [OF that(1,2)] have "on_response env undisturbed (chatId s) r ?p = (?s1, Some e)" by simp
    from handleSendMessage_response [of s fetch r env, OF assms(1,2) this] show ?thesis
      using seal_last_snoc [of "userFriendlyError env e" "messages s @ [userMessage s]" placeholder]
      by (simp add: catch_block_def Let_def)
  qed
  have d: "?final = read_loop env [] (chunks b) (messages s @ [userMessage s, placeholder])"
    if "headers r ''content-type'' = None \<or>
        (headers r ''content-type'' = Some c \<and> \<not> includes_str c ''application/json'')"
  proof -
    have "stream_branch env undisturbed r ?s1 =
          (?s1 \<lparr> messages := read_loop env [] (chunks b) (messages s @ [userMessage s, placeholder]) \<rparr>,
           None)"
      using assms(4,5) by (simp add: stream_branch_undisturbed)
    with st [OF that] have "on_response env undisturbed (chatId s) r ?p =
          (?s1 \<lparr> messages := read_loop env [] (chunks b) (messages s @ [userMessage s, placeholder]) \<rparr>,
           None)" by simp
    from handleSendMessage_response [of s fetch r env, OF assms(1,2) this] show ?thesis by simp
  qed
  from a b c d show ?thesis by simp
qed


theorem response_classification_witness:
  \<open>messages (fst (handleSendMessage scenario_platform
       (answering (json_response [''{"text":"Hi there"}''])) ready_state)) =
     messages ready_state @ [userMessage ready_state, placeholder \<lparr> text' := JString ''Hi there'' \<rparr>] \<and>
   messages (fst (handleSendMessage scenario_platform
       (answering (json_response [''data: {"text":"He"}\<newline>''])) ready_state)) =
     messages ready_state @ [userMessage ready_state,
       placeholder \<lparr> text' := JString (userFriendlyError scenario_platform ''Unexpected token''),
                     isError := True \<rparr>] \<and>
   messages (fst (handleSendMessage scenario_platform
       (answering (untyped_response [''data: {"text":"He"}\<newline>''])) ready_state)) =
     messages ready_state @ [userMessage ready_state, placeholder \<lparr> text' := JString ''He'' \<rparr>]\<close>
proof -
  let ?j = \<open>json_response [''{"text":"Hi there"}'']\<close>
  let ?e = \<open>json_response [''data: {"text":"He"}\<newline>'']\<close>
  let ?u = \<open>untyped_response [''data: {"text":"He"}\<newline>'']\<close>
  have h1: "dispatched ready_state" by code_simp
  have j3: "ok ?j" and e3: "ok ?e" and u3: "ok ?u" by code_simp+
  have j4: \<open>body ?j = Some \<lparr> chunks = [''{"text":"Hi there"}''], failure = None \<rparr>\<close>
    and e4: \<open>body ?e = Some \<lparr> chunks = [''data: {"text":"He"}\<newline>''], failure = None \<rparr>\<close>
    and u4: \<open>body ?u = Some \<lparr> chunks = [''data: {"text":"He"}\<newline>''], failure = None \<rparr>\<close>
    by (simp_all add: json_response_def untyped_response_def reply_def)
  have ct: "headers ?j ''content-type'' = Some ''application/json; charset=utf-8''"
    "headers ?e ''content-type'' = Some ''application/json; charset=utf-8''"
    "headers ?u ''content-type'' = None"
    by (simp_all add: json_response_def untyped_response_def reply_def)
  have inc: "includes_str ''application/json; charset=utf-8'' ''application/json''" by code_simp
  have pj: \<open>JSON_parse scenario_platform (concat [''{"text":"Hi there"}'']) =
            Inr (JObject [(''text'', JString ''Hi there'')])\<close> by code_simp
  have pe: \<open>JSON_parse scenario_platform (concat [''data: {"text":"He"}\<newline>'']) =
            Inl ''Unexpected token''\<close> by code_simp
  have rl: \<open>read_loop scenario_platform [] [''data: {"text":"He"}\<newline>'']
              (messages ready_state @ [userMessage ready_state, placeholder]) =
            messages ready_state @ [userMessage ready_state, placeholder \<lparr> text' := JString ''He'' \<rparr>]\<close>
    by code_simp
  have a: "answering r (make_request ready_state) = Inr r" for r :: response
    by (simp add: answering_def)
  note J = response_classification [where s = ready_state and fetch = "answering ?j" and r = ?j
      and c = "''application/json; charset=utf-8''" and env = scenario_platform
      and kvs = "[(''text'', JString ''Hi there'')]" and t = "''Hi there''", OF h1 a j3 j4]
  note E = response_classification [where s = ready_state and fetch = "answering ?e" and r = ?e
      and c = "''application/json; charset=utf-8''" and env = scenario_platform
      and e = "''Unexpected token''", OF h1 a e3 e4]
  note U = response_classification [where s = ready_state and fetch = "answering ?u" and r = ?u
      and env = scenario_platform, OF h1 a u3 u4]
  from J ct inc pj have 1: \<open>messages (fst (handleSendMessage scenario_platform (answering ?j) ready_state)) =
     messages ready_state @ [userMessage ready_state, placeholder \<lparr> text' := JString ''Hi there'' \<rparr>]\<close>
    by simp
  from E ct inc pe have 2: \<open>messages (fst (handleSendMessage scenario_platform (answering ?e) ready_state)) =
     messages ready_state @ [userMessage ready_state,
       placeholder \<lparr> text' := JString (userFriendlyError scenario_platform ''Unexpected token''),
                     isError := True \<rparr>]\<close>
    by simp
  from U ct rl have 3: \<open>messages (fst (handleSendMessage scenario_platform (answering ?u) ready_state)) =
     messages ready_state @ [userMessage ready_state, placeholder \<lparr> text' := JString ''He'' \<rparr>]\<close>
    by simp
  from 1 2 3 show ?thesis by simp
qed

subsection \<open>The error message\<close>

text \<open>
  The message of a refused response starts with fixed words and the status; the brace
  match falls in the body text.
\<close>

lemma match_braces_skip: "CHR ''{'' \<notin> set p \<Longrightarrow> match_braces (p @ t) = match_braces t"
  by (induction p) auto

lemma digit_no_brace: "d < 10 \<Longrightarrow> char_of (48 + d) \<noteq> CHR ''{''" for d :: nat
proof
  assume d: "d < 10" and "char_of (48 + d) = CHR ''{''"
  then have "of_char (char_of (48 + d) :: char) = (of_char (CHR ''{'') :: nat)" by simp
  with d show False by simp
qed

lemma decimal_no_brace: "CHR ''{'' \<notin> set (decimal n)"
proof (induction n rule: decimal.induct)
  case (1 n)
  show ?case
  proof (cases "n < 10")
    case True
    then show ?thesis using digit_no_brace [of n] by (simp add: decimal.simps [of n])
  next
    case False
    have "n mod 10 < 10" by simp
    from digit_no_brace [OF this] 1 False show ?thesis
      by (simp add: decimal.simps [of n])
  qed
qed

lemma refused_message_match:
  "match_braces (''Network response was not ok: '' @ decimal n @ '' '' @ t) = match_braces t"
proof -
  have "CHR ''{'' \<notin> set (''Network response was not ok: '' @ decimal n @ '' '')"
    using decimal_no_brace [of n] by simp
  from match_braces_skip [OF this, of t] show ?thesis by simp
qed

lemma userFriendlyError_cases:
  "(match_braces m = Some j \<and> JSON_parse env j = Inr (JObject kvs) \<and>
      map_of kvs ''message'' = Some v \<and> truthy env v \<and> toString env v = Some t \<longrightarrow>
        userFriendlyError env m = workflow_error t) \<and>
   (match_braces m = Some j \<and> JSON_parse env j = Inr (JObject kvs) \<and>
      (map_of kvs ''message'' = None \<or>
       (map_of kvs ''message'' = Some v \<and> (\<not> truthy env v \<or> toString env v = None))) \<longrightarrow>
        userFriendlyError env m = generic_error m) \<and>
   (match_braces m = None \<or> (match_braces m = Some j \<and> isl (JSON_parse env j)) \<longrightarrow>
        userFriendlyError env m = generic_error m)"
  by (auto simp: userFriendlyError_def split: sum.splits)

text \<open>
  C7, as amended. A dispatched send is answered by a refused response whose body text
  is read; \<open>m\<close> is the message of the error thrown. The banner is the normalised message,
  and the bot message is sealed with it and marked as an error. The brace match of \<open>m\<close> is
  that of the body text. When the match decodes to an object with a string that is not
  empty under \<open>message\<close>, the normalised message is the workflow text around that string,
  followed by the checklist; so it is for every truthy value under \<open>message\<close> whose
  conversion to a string does not throw, around the string it converts to. When the
  object has no \<open>message\<close> or a falsy one, when the conversion throws, when nothing matches,
  and when the match does not decode, it is the generic text around \<open>m\<close>.
\<close>

theorem error_normalised:
  assumes "dispatched s" "fetch (make_request s) = Inr r" "\<not> ok r"
    "response_text r = Inr errorText"
    "m = ''Network response was not ok: '' @ decimal (status r) @ '' '' @ errorText"
  shows
    \<open>error (fst (handleSendMessage env fetch s)) = userFriendlyError env m \<and>
     messages (fst (handleSendMessage env fetch s)) =
       messages s @ [userMessage s,
         placeholder \<lparr> text' := JString (userFriendlyError env m), isError := True \<rparr>] \<and>
     match_braces m = match_braces errorText \<and>
     (match_braces m = Some j \<and> JSON_parse env j = Inr (JObject kvs) \<and>
        map_of kvs ''message'' = Some (JString t) \<and> t \<noteq> [] \<longrightarrow>
          userFriendlyError env m =
            ''An error occurred in your n8n workflow: "'' @ t @ ''"'' @ checklist) \<and>
     (match_braces m = Some j \<and> JSON_parse env j = Inr (JObject kvs) \<and>
        map_of kvs ''message'' = Some v \<and> truthy env v \<and> toString env v = Some t' \<longrightarrow>
          userFriendlyError env m =
            ''An error occurred in your n8n workflow: "'' @ t' @ ''"'' @ checklist) \<and>
     (match_braces m = Some j \<and> JSON_parse env j = Inr (JObject kvs) \<and>
        (map_of kvs ''message'' = None \<or>
         (map_of kvs ''message'' = Some v \<and> (\<not> truthy env v \<or> toString env v = None))) \<longrightarrow>
          userFriendlyError env m =
            ''Error: '' @ m @ ''. Please check the webhook URL and your n8n workflow.'') \<and>
     (match_braces m = None \<or> (match_braces m = Some j \<and> isl (JSON_parse env j)) \<longrightarrow>
          userFriendlyError env m =
            ''Error: '' @ m @ ''. Please check the webhook URL and your n8n workflow.'')\<close>
proof -
  have "on_response env undisturbed (chatId s) r (pending_state s) = (pending_state s, Some m)"
    using assms(3,4,5) by (simp add: on_response_undisturbed)
  from handleSendMessage_response [of s fetch r env, OF assms(1,2) this]
  have "fst (handleSendMessage env fetch s) =
        (catch_block env m (pending_state s)) \<lparr> isLoading := False \<rparr>" by simp
  then have "error (fst (handleSendMessage env fetch s)) = userFriendlyError env m"
    "messages (fst (handleSendMessage env fetch s)) =
       messages s @ [userMessage s,
         placeholder \<lparr> text' := JString (userFriendlyError env m), isError := True \<rparr>]"
    using seal_last_snoc [of "userFriendlyError env m" "messages s @ [userMessage s]" placeholder]
    by (simp_all add: catch_block_def Let_def)
  moreover have "match_braces m = match_braces errorText"
    unfolding assms(5) by (rule refused_message_match)
  ultimately show ?thesis
    using userFriendlyError_cases [of m j env kvs v t']
      userFriendlyError_cases [of m j env kvs "JString t" t]
    by (simp add: workflow_error_def generic_error_def)
qed

theorem error_normalised_witness:
  \<open>dispatched ready_state \<and> \<not> ok workflow_failure \<and> \<not> ok unprintable_failure \<and>
   match_braces ''Network response was not ok: 500 Workflow error: {"message":"Invalid API key"}'' =
     Some ''{"message":"Invalid API key"}'' \<and>
   error (fst (handleSendMessage scenario_platform (answering workflow_failure) ready_state)) =
     ''An error occurred in your n8n workflow: "Invalid API key"'' @ checklist \<and>
   messages (fst (handleSendMessage scenario_platform (answering workflow_failure) ready_state)) =
     messages ready_state @ [userMessage ready_state,
       placeholder \<lparr> text' := JString (''An error occurred in your n8n workflow: "Invalid API key"'' @ checklist),
                     isError := True \<rparr>] \<and>
   toString scenario_platform (JObject [(''toString'', JNumber 1)]) = None \<and>
   error (fst (handleSendMessage scenario_platform (answering unprintable_failure) ready_state)) =
     ''Error: Network response was not ok: 500 Workflow error: {"message":{"toString":1}}. Please check the webhook URL and your n8n workflow.''\<close>
proof -
  let ?m = \<open>''Network response was not ok: 500 Workflow error: {"message":"Invalid API key"}''\<close>
  let ?u = \<open>''Network response was not ok: 500 Workflow error: {"message":{"toString":1}}''\<close>
  have h1: "dispatched ready_state" by code_simp
  have h2: "answering workflow_failure (make_request ready_state) = Inr workflow_failure"
    by (simp add: answering_def)
  have h3: "\<not> ok workflow_failure" by code_simp
  have h4: \<open>response_text workflow_failure = Inr ''Workflow error: {"message":"Invalid API key"}''\<close>
    by code_simp
  have h5: \<open>?m = ''Network response was not ok: '' @ decimal (status workflow_failure) @ '' '' @
              ''Workflow error: {"message":"Invalid API key"}''\<close> by code_simp
  have mb: \<open>match_braces ?m = Some ''{"message":"Invalid API key"}''\<close> by code_simp
  have pj: \<open>JSON_parse scenario_platform ''{"message":"Invalid API key"}'' =
            Inr (JObject [(''message'', JString ''Invalid API key'')])\<close> by code_simp
  have u2: "answering unprintable_failure (make_request ready_state) = Inr unprintable_failure"
    by (simp add: answering_def)
  have u3: "\<not> ok unprintable_failure" by code_simp
  have u4: \<open>response_text unprintable_failure = Inr ''Workflow error: {"message":{"toString":1}}''\<close>
    by code_simp
  have u5: \<open>?u = ''Network response was not ok: '' @ decimal (status unprintable_failure) @ '' '' @
              ''Workflow error: {"message":{"toString":1}}''\<close> by code_simp
  have ub: \<open>match_braces ?u = Some ''{"message":{"toString":1}}''\<close> by code_simp
  have uj: \<open>JSON_parse scenario_platform ''{"message":{"toString":1}}'' =
            Inr (JObject [(''message'', JObject [(''toString'', JNumber 1)])])\<close> by code_simp
  have ut: "toString scenario_platform (JObject [(''toString'', JNumber 1)]) = None" by simp
  from error_normalised [where s = ready_state and fetch = "answering workflow_failure"
      and r = workflow_failure and m = ?m and j = \<open>''{"message":"Invalid API key"}''\<close>
      and env = scenario_platform and kvs = "[(''message'', JString ''Invalid API key'')]"
      and t = "''Invalid API key''", OF h1 h2 h3 h4 h5] mb pj
  have 1: \<open>error (fst (handleSendMessage scenario_platform (answering workflow_failure) ready_state)) =
     ''An error occurred in your n8n workflow: "Invalid API key"'' @ checklist\<close>
    \<open>messages (fst (handleSendMessage scenario_platform (answering workflow_failure) ready_state)) =
     messages ready_state @ [userMessage ready_state,
       placeholder \<lparr> text' := JString (''An error occurred in your n8n workflow: "Invalid API key"'' @ checklist),
                     isError := True \<rparr>]\<close>
    by simp_all
  from error_normalised [where s = ready_state and fetch = "answering unprintable_failure"
      and r = unprintable_failure and m = ?u and j = \<open>''{"message":{"toString":1}}''\<close>
      and env = scenario_platform
      and kvs = "[(''message'', JObject [(''toString'', JNumber 1)])]"
      and v = "JObject [(''toString'', JNumber 1)]", OF h1 u2 u3 u4 u5] ub uj ut
  have 2: \<open>error (fst (handleSendMessage scenario_platform (answering unprintable_failure) ready_state)) =
     ''Error: Network response was not ok: 500 Workflow error: {"message":{"toString":1}}. Please check the webhook URL and your n8n workflow.''\<close>
    by simp
  from 1 2 h1 h3 u3 mb ut show ?thesis by simp
qed

text \<open>
  The claim as stated fails when the \<open>message\<close> field is the empty string: the generic
  message is kept, and the checklist is not in it.
\<close>

theorem empty_message_counterexample:
  \<open>\<not> ok empty_message_failure \<and>
   match_braces ''Network response was not ok: 500 Workflow error: {"message":""}'' =
     Some ''{"message":""}'' \<and>
   JSON_parse scenario_platform ''{"message":""}'' = Inr (JObject [(''message'', JString [])]) \<and>
   error (fst (handleSendMessage scenario_platform (answering empty_message_failure) ready_state)) =
     ''Error: Network response was not ok: 500 Workflow error: {"message":""}. Please check the webhook URL and your n8n workflow.'' \<and>
   \<not> includes_str
      (error (fst (handleSendMessage scenario_platform (answering empty_message_failure) ready_state)))
      checklist\<close>
  by code_simp

end
